theory Spec2Isabelle
  imports Complex_Main
begin

section \<open>Finite state controller (core/StateMachine.ts, core/GameState.ts)\<close>

text \<open>
  The enum \<^verbatim>\<open>GameState\<close> and the class \<^verbatim>\<open>StateMachine\<close>. A handler's
  \<^verbatim>\<open>onEnter\<close> and \<^verbatim>\<open>onExit\<close> are optional closures over the game object; here
  they are optional functions on a world \<open>'w\<close>, the state they close over, which the
  machine record carries along. No handler of the game calls \<^verbatim>\<open>transitionTo\<close> from
  \<^verbatim>\<open>onEnter\<close> or \<^verbatim>\<open>onExit\<close> (Boot's \<^verbatim>\<open>onEnter\<close> defers it through a
  timer), so a callback is a function of the world alone. The field \<open>calls\<close> is the
  log of the callbacks invoked so far, in order: the source keeps no such log, the model
  has it to state which callbacks ran and in which order. The \<^verbatim>\<open>update\<close> closures
  of the handlers are with the game, in \<open>StateMachine_update\<close> below.
\<close>

datatype GameState = Boot | Title | Play | Result

datatype callback = OnExit GameState | OnEnter GameState

record 'w StateHandler =
  onEnter :: "('w \<Rightarrow> 'w) option"
  onExit :: "('w \<Rightarrow> 'w) option"

record 'w StateMachine =
  currentState :: GameState
  stateHandlers :: "GameState \<Rightarrow> 'w StateHandler option"
  world :: 'w
  calls :: "callback list"

definition addStateHandler ::
  "GameState \<Rightarrow> 'w StateHandler \<Rightarrow> 'w StateMachine \<Rightarrow> 'w StateMachine" where
  "addStateHandler s h m = m\<lparr>stateHandlers := (stateHandlers m)(s \<mapsto> h)\<rparr>"

definition getCurrentState :: "'w StateMachine \<Rightarrow> GameState" where
  "getCurrentState m = currentState m"

text \<open>The table \<^verbatim>\<open>validTransitions\<close> of \<^verbatim>\<open>canTransitionTo\<close>.\<close>

fun validTransitions :: "GameState \<Rightarrow> GameState list" where
  "validTransitions Boot = [Title]"
| "validTransitions Title = [Play]"
| "validTransitions Play = [Result]"
| "validTransitions Result = [Play, Title]"

definition canTransitionTo :: "'w StateMachine \<Rightarrow> GameState \<Rightarrow> bool" where
  "canTransitionTo m newState = (newState \<in> set (validTransitions (currentState m)))"

text \<open>\<^verbatim>\<open>oldHandler?.onExit\<close>: the callback of the current state's handler, if both exist.\<close>

definition runOnExit :: "'w StateMachine \<Rightarrow> 'w StateMachine" where
  "runOnExit m =
     (case stateHandlers m (currentState m) of
        None \<Rightarrow> m
      | Some h \<Rightarrow>
          (case onExit h of
             None \<Rightarrow> m
           | Some f \<Rightarrow> m\<lparr>world := f (world m), calls := calls m @ [OnExit (currentState m)]\<rparr>))"

definition runOnEnter :: "'w StateMachine \<Rightarrow> 'w StateMachine" where
  "runOnEnter m =
     (case stateHandlers m (currentState m) of
        None \<Rightarrow> m
      | Some h \<Rightarrow>
          (case onEnter h of
             None \<Rightarrow> m
           | Some f \<Rightarrow> m\<lparr>world := f (world m), calls := calls m @ [OnEnter (currentState m)]\<rparr>))"

definition transitionTo :: "GameState \<Rightarrow> 'w StateMachine \<Rightarrow> 'w StateMachine" where
  "transitionTo newState m =
     (if \<not> canTransitionTo m newState then m
      else runOnEnter ((runOnExit m)\<lparr>currentState := newState\<rparr>))"

text \<open>The adjacency table as the specification lists it.\<close>

definition spec_adjacency :: "(GameState \<times> GameState) list" where
  "spec_adjacency = [(Boot, Title), (Title, Play), (Play, Result), (Result, Play), (Result, Title)]"

text \<open>The callbacks a transition from the current state to \<open>t\<close> has to invoke, in order.\<close>

definition exit_call :: "'w StateMachine \<Rightarrow> callback list" where
  "exit_call m =
     (case stateHandlers m (currentState m) of
        None \<Rightarrow> []
      | Some h \<Rightarrow> (case onExit h of None \<Rightarrow> [] | Some f \<Rightarrow> [OnExit (currentState m)]))"

definition enter_call :: "'w StateMachine \<Rightarrow> GameState \<Rightarrow> callback list" where
  "enter_call m t =
     (case stateHandlers m t of
        None \<Rightarrow> []
      | Some h \<Rightarrow> (case onEnter h of None \<Rightarrow> [] | Some f \<Rightarrow> [OnEnter t]))"

text \<open>A machine for the examples: the world is a number, leaving Play adds one to it and
  entering Result doubles it, so the order of the two callbacks shows in the result.\<close>

definition example_handlers :: "GameState \<Rightarrow> nat StateHandler option" where
  "example_handlers =
     [Play \<mapsto> \<lparr>onEnter = None, onExit = Some (\<lambda>w. w + 1)\<rparr>,
      Result \<mapsto> \<lparr>onEnter = Some (\<lambda>w. 2 * w), onExit = None\<rparr>]"

definition example_machine :: "GameState \<Rightarrow> nat StateMachine" where
  "example_machine s =
     \<lparr>currentState = s, stateHandlers = example_handlers, world = 3, calls = []\<rparr>"


section \<open>Vectors and spheres (the parts of three.js the game uses)\<close>

text \<open>
  JavaScript numbers are modelled as real numbers: rounding, overflow to infinity and
  NaN are outside the model, except for the one place where the source divides by the
  frame time (see \<open>updateMovement\<close>). \<^verbatim>\<open>Vector3.normalize()\<close> divides by
  \<^verbatim>\<open>length() || 1\<close>, so the zero vector stays the zero vector.
\<close>

datatype vec3 = Vector3 (vecx: real) (vecy: real) (vecz: real)

datatype sphere = Sphere (center: vec3) (radius: real)

definition vadd :: "vec3 \<Rightarrow> vec3 \<Rightarrow> vec3" where
  "vadd a b = Vector3 (vecx a + vecx b) (vecy a + vecy b) (vecz a + vecz b)"

definition vsub :: "vec3 \<Rightarrow> vec3 \<Rightarrow> vec3" where
  "vsub a b = Vector3 (vecx a - vecx b) (vecy a - vecy b) (vecz a - vecz b)"

definition multiplyScalar :: "vec3 \<Rightarrow> real \<Rightarrow> vec3" where
  "multiplyScalar v s = Vector3 (vecx v * s) (vecy v * s) (vecz v * s)"

definition addScaledVector :: "vec3 \<Rightarrow> vec3 \<Rightarrow> real \<Rightarrow> vec3" where
  "addScaledVector a v s = vadd a (multiplyScalar v s)"

definition vlength :: "vec3 \<Rightarrow> real" where
  "vlength v = sqrt (vecx v * vecx v + vecy v * vecy v + vecz v * vecz v)"

definition normalizeVector :: "vec3 \<Rightarrow> vec3" where
  "normalizeVector v = multiplyScalar v (1 / (if vlength v = 0 then 1 else vlength v))"

definition distanceTo :: "vec3 \<Rightarrow> vec3 \<Rightarrow> real" where
  "distanceTo a b = vlength (vsub a b)"

definition crossVectors :: "vec3 \<Rightarrow> vec3 \<Rightarrow> vec3" where
  "crossVectors a b =
     Vector3 (vecy a * vecz b - vecz a * vecy b)
             (vecz a * vecx b - vecx a * vecz b)
             (vecx a * vecy b - vecy a * vecx b)"

definition setY :: "vec3 \<Rightarrow> real \<Rightarrow> vec3" where
  "setY v a = Vector3 (vecx v) a (vecz v)"

text \<open>\<^verbatim>\<open>sphereIntersectsSphere\<close> of the collision system: touching spheres intersect.\<close>

definition sphereIntersectsSphere :: "sphere \<Rightarrow> sphere \<Rightarrow> bool" where
  "sphereIntersectsSphere s1 s2 \<longleftrightarrow>
     distanceTo (center s1) (center s2) \<le> radius s1 + radius s2"


section \<open>Terrain (three/SceneFactory.ts)\<close>

definition getTerrainHeight :: "real \<Rightarrow> real \<Rightarrow> real" where
  "getTerrainHeight x z =
     (let planeY = - z in
        sin (x * 0.8) * cos (planeY * 0.8) * 0.3 +
        sin (x * 1.5 + 1) * sin (planeY * 1.2 + 0.5) * 0.2 +
        cos (x * 0.5 - planeY * 0.7) * 0.15)"


section \<open>Player controller (entities/Player.ts)\<close>

record InputState =
  movement_x :: real
  movement_z :: real
  jump :: bool
  punch :: bool
  jumpPressed :: bool
  punchPressed :: bool

record Player =
  position :: vec3
  velocity :: vec3
  isGrounded :: bool
  punchActive :: bool
  punchTimer :: real
  knockbackTimer :: real
  isKnockedBack :: bool
  moveSpeed :: real
  direction :: vec3
  punchSphere :: sphere

definition jumpSpeed :: real where "jumpSpeed = 8.5"
definition gravity :: real where "gravity = - 18"
definition airControlFactor :: real where "airControlFactor = 0.6"
definition punchDuration :: real where "punchDuration = 0.25"
definition punchRadius :: real where "punchRadius = 0.6"
definition punchOffset :: real where "punchOffset = 0.7"
definition knockbackDuration :: real where "knockbackDuration = 0.4"

text \<open>The constructor: the field initialisers, then \<^verbatim>\<open>position.set(0, 1, 0)\<close>. A fresh
  \<^verbatim>\<open>THREE.Sphere\<close> has centre 0 and radius -1.\<close>

definition Player_new :: Player where
  "Player_new =
     \<lparr>position = Vector3 0 1 0, velocity = Vector3 0 0 0, isGrounded = False,
      punchActive = False, punchTimer = 0, knockbackTimer = 0, isKnockedBack = False,
      moveSpeed = 4, direction = Vector3 0 0 0,
      punchSphere = Sphere (Vector3 0 0 0) (- 1)\<rparr>"

text \<open>The camera-relative movement vector of \<^verbatim>\<open>updateMovement\<close>.\<close>

definition worldMovement :: "vec3 \<Rightarrow> vec3 \<Rightarrow> vec3" where
  "worldMovement cameraDirection movementVector =
     (let cameraForward = normalizeVector (setY (normalizeVector cameraDirection) 0);
          cameraRight = crossVectors cameraForward (Vector3 0 1 0)
      in addScaledVector (addScaledVector (Vector3 0 0 0) cameraRight (vecx movementVector))
           cameraForward (- vecz movementVector))"

text \<open>The last two statements of \<^verbatim>\<open>updateMovement\<close>: the horizontal step, clamped to
  the stage with margin 0.5.\<close>

definition constrainToStage :: "real \<Rightarrow> Player \<Rightarrow> Player" where
  "constrainToStage deltaTime p =
     (let margin = 0.5 in
      p\<lparr>position :=
          Vector3
            (max (- 5 + margin) (min (5 - margin) (vecx (position p) + vecx (velocity p) * deltaTime)))
            (vecy (position p))
            (max (- 5 + margin) (min (5 - margin) (vecz (position p) + vecz (velocity p) * deltaTime)))\<rparr>)"

text \<open>
  \<^verbatim>\<open>updateMovement\<close>. With a non-zero intent the source sets the velocity to
  \<^verbatim>\<open>movementVector.x / deltaTime\<close> after scaling the vector by \<^verbatim>\<open>deltaTime\<close>: for
  \<^verbatim>\<open>deltaTime = 0\<close> that is 0/0, NaN in JavaScript (and 0 in HOL), so the model
  returns \<open>None\<close> there: the player has left the real numbers. The friction factor
  \<^verbatim>\<open>Math.pow(0.1, deltaTime)\<close> is \<open>0.1 powr deltaTime\<close>, the exact power; on doubles
  the power can round to 1 and the product to the old velocity.
\<close>

definition updateMovement ::
  "real \<Rightarrow> InputState \<Rightarrow> vec3 option \<Rightarrow> Player \<Rightarrow> Player option" where
  "updateMovement deltaTime inputState cameraDirection p =
     (let movementVector = Vector3 (movement_x inputState) 0 (movement_z inputState) in
      if vlength movementVector > 0 then
        (let moved = (case cameraDirection of
                        None \<Rightarrow> movementVector
                      | Some c \<Rightarrow> worldMovement c movementVector);
             currentMoveSpeed =
               (if isGrounded p then moveSpeed p else moveSpeed p * airControlFactor);
             scaled = multiplyScalar (normalizeVector moved) (currentMoveSpeed * deltaTime)
         in if deltaTime = 0 then None
            else Some (constrainToStage deltaTime
              (p\<lparr>velocity :=
                    Vector3 (vecx scaled / deltaTime) (vecy (velocity p)) (vecz scaled / deltaTime),
                  direction := normalizeVector scaled\<rparr>)))
      else
        Some (constrainToStage deltaTime
          (if isGrounded p then
             p\<lparr>velocity :=
                 Vector3 (vecx (velocity p) * (0.1 powr deltaTime)) (vecy (velocity p))
                         (vecz (velocity p) * (0.1 powr deltaTime))\<rparr>
           else p)))"

definition updateJump :: "InputState \<Rightarrow> Player \<Rightarrow> Player" where
  "updateJump inputState p =
     (if jumpPressed inputState \<and> isGrounded p then
        p\<lparr>velocity := setY (velocity p) jumpSpeed, isGrounded := False\<rparr>
      else p)"

text \<open>The aim of the punch, written twice in \<^verbatim>\<open>updatePunch\<close>: the camera direction
  flattened and normalised, or (0,0,-1) without a camera direction.\<close>

definition punchDirection :: "vec3 option \<Rightarrow> vec3" where
  "punchDirection cameraDirection =
     (case cameraDirection of
        None \<Rightarrow> Vector3 0 0 (- 1)
      | Some c \<Rightarrow> normalizeVector (setY (normalizeVector c) 0))"

definition placePunchSphere :: "vec3 option \<Rightarrow> Player \<Rightarrow> Player" where
  "placePunchSphere cameraDirection p =
     p\<lparr>punchSphere :=
         Sphere (vadd (position p) (multiplyScalar (punchDirection cameraDirection) punchOffset))
                punchRadius\<rparr>"

text \<open>The guard of the first block of \<^verbatim>\<open>updatePunch\<close>: the punch is switched on.\<close>

definition punchActivates :: "Player \<Rightarrow> bool" where
  "punchActivates p \<longleftrightarrow> \<not> isGrounded p \<and> \<not> punchActive p"

definition updatePunch :: "real \<Rightarrow> vec3 option \<Rightarrow> Player \<Rightarrow> Player" where
  "updatePunch deltaTime cameraDirection p =
     (let p1 = (if punchActivates p then
                  placePunchSphere cameraDirection
                    (p\<lparr>punchActive := True, punchTimer := punchDuration\<rparr>)
                else p)
      in if punchActive p1 then
           (let p2 = p1\<lparr>punchTimer := punchTimer p1 - deltaTime\<rparr> in
            if punchTimer p2 \<le> 0 \<or> isGrounded p2 then p2\<lparr>punchActive := False\<rparr>
            else placePunchSphere cameraDirection p2)
         else p1)"

definition respawn :: "Player \<Rightarrow> Player" where
  "respawn p = p\<lparr>position := Vector3 0 1 0, velocity := Vector3 0 0 0, isGrounded := False\<rparr>"

definition updatePhysics :: "real \<Rightarrow> Player \<Rightarrow> Player" where
  "updatePhysics deltaTime p =
     (let p1 = p\<lparr>velocity := setY (velocity p) (vecy (velocity p) + gravity * deltaTime)\<rparr>;
          p2 = p1\<lparr>position := vadd (position p1) (multiplyScalar (velocity p1) deltaTime)\<rparr>
      in if vecy (position p2) < - 10 then respawn p2 else p2)"

definition updateGroundCheck :: "Player \<Rightarrow> Player" where
  "updateGroundCheck p =
     (let terrainHeight = getTerrainHeight (vecx (position p)) (vecz (position p));
          groundLevel = terrainHeight + 0.6
      in if isGrounded p then
           p\<lparr>position := setY (position p) groundLevel, velocity := setY (velocity p) 0\<rparr>
         else if vecy (position p) \<le> groundLevel \<and> vecy (velocity p) \<le> 0 then
           p\<lparr>position := setY (position p) groundLevel, velocity := setY (velocity p) 0,
             isGrounded := True\<rparr>
         else p)"

definition updateKnockback :: "real \<Rightarrow> Player \<Rightarrow> Player" where
  "updateKnockback deltaTime p =
     (let p1 = p\<lparr>knockbackTimer := knockbackTimer p - deltaTime\<rparr>;
          p2 = (if knockbackTimer p1 \<le> 0 then p1\<lparr>isKnockedBack := False\<rparr> else p1)
      in updateGroundCheck (updatePhysics deltaTime p2))"

definition Player_update ::
  "real \<Rightarrow> InputState \<Rightarrow> vec3 option \<Rightarrow> Player \<Rightarrow> Player option" where
  "Player_update deltaTime inputState cameraDirection p =
     (if isKnockedBack p then Some (updateKnockback deltaTime p)
      else
        (case updateMovement deltaTime inputState cameraDirection p of
           None \<Rightarrow> None
         | Some p1 \<Rightarrow>
             Some (updateGroundCheck (updatePhysics deltaTime
                     (updatePunch deltaTime cameraDirection (updateJump inputState p1))))))"

definition applyKnockback :: "vec3 \<Rightarrow> real \<Rightarrow> Player \<Rightarrow> Player" where
  "applyKnockback dir force p =
     (let v = multiplyScalar (normalizeVector dir) force in
      p\<lparr>velocity := setY v (max (vecy v) 3), isKnockedBack := True,
        knockbackTimer := knockbackDuration, isGrounded := False\<rparr>)"

definition getPunchSphere :: "Player \<Rightarrow> sphere option" where
  "getPunchSphere p = (if punchActive p then Some (punchSphere p) else None)"

definition Player_getBoundingSphere :: "Player \<Rightarrow> sphere" where
  "Player_getBoundingSphere p = Sphere (position p) 0.5"

text \<open>A frame of input for the player, and a run of frames: the result of each
  \<^verbatim>\<open>Player.update\<close> is the state of the next.\<close>

record frame =
  frame_dt :: real
  frame_input :: InputState
  frame_camera :: "vec3 option"

fun Player_run :: "frame list \<Rightarrow> Player \<Rightarrow> Player option" where
  "Player_run [] p = Some p"
| "Player_run (f # fs) p =
     (case Player_update (frame_dt f) (frame_input f) (frame_camera f) p of
        None \<Rightarrow> None
      | Some p' \<Rightarrow> Player_run fs p')"

definition noInput :: InputState where
  "noInput = \<lparr>movement_x = 0, movement_z = 0, jump = False, punch = False,
     jumpPressed = False, punchPressed = False\<rparr>"



section \<open>Random numbers\<close>

text \<open>
  \<^verbatim>\<open>Math.random()\<close> is modelled by a stream of numbers that the caller supplies: a
  function that consumes \<open>n\<close> of them reads \<open>r 0\<close> to \<open>r (n - 1)\<close> and returns
  the stream advanced by \<open>n\<close>. Nothing is assumed about the values unless a theorem
  says so.
\<close>

type_synonym rng = "nat \<Rightarrow> real"

definition rngDrop :: "nat \<Rightarrow> rng \<Rightarrow> rng" where
  "rngDrop n r = (\<lambda>i. r (i + n))"


section \<open>Hazards (entities/Meteor.ts)\<close>

text \<open>
  The class \<^verbatim>\<open>Meteor\<close>, in the version whose \<^verbatim>\<open>updateFalling\<close> tests the height
  against the terrain. The meshes and the telegraph ring are presentation and are left
  out. \<^verbatim>\<open>update\<close> returns the new meteor and the flag the source returns.
\<close>

datatype MeteorState = Telegraph | Falling | Destroyed | Exploded

record Meteor =
  meteor_position :: vec3
  meteor_velocity :: vec3
  targetPosition :: vec3
  state :: MeteorState
  timer :: real
  fallSpeed :: real

definition telegraphDuration :: real where "telegraphDuration = 1.0"
definition meteorRadius :: real where "meteorRadius = 0.45"
definition explosionRadius :: real where "explosionRadius = 1.6"
definition spawnHeight :: real where "spawnHeight = 12"

definition Meteor_new :: "vec3 \<Rightarrow> Meteor" where
  "Meteor_new targetPos =
     \<lparr>meteor_position = Vector3 (vecx targetPos) spawnHeight (vecz targetPos),
      meteor_velocity = Vector3 0 0 0,
      targetPosition = setY targetPos 0,
      state = Telegraph, timer = 0, fallSpeed = 12\<rparr>"

definition updateTelegraph :: "Meteor \<Rightarrow> Meteor" where
  "updateTelegraph m =
     (if timer m \<ge> telegraphDuration then
        m\<lparr>state := Falling,
          meteor_velocity :=
            multiplyScalar (normalizeVector (vsub (targetPosition m) (meteor_position m)))
              (fallSpeed m)\<rparr>
      else m)"

definition explode :: "Meteor \<Rightarrow> Meteor" where
  "explode m = m\<lparr>state := Exploded\<rparr>"

definition destroy :: "Meteor \<Rightarrow> Meteor" where
  "destroy m = m\<lparr>state := Destroyed\<rparr>"

definition updateFalling :: "real \<Rightarrow> Meteor \<Rightarrow> Meteor" where
  "updateFalling deltaTime m =
     (let m1 = m\<lparr>meteor_position :=
                  vadd (meteor_position m) (multiplyScalar (meteor_velocity m) deltaTime)\<rparr>;
          terrainHeight = getTerrainHeight (vecx (meteor_position m1)) (vecz (meteor_position m1))
      in if vecy (meteor_position m1) \<le> terrainHeight + meteorRadius then explode m1 else m1)"

definition Meteor_update :: "real \<Rightarrow> Meteor \<Rightarrow> Meteor \<times> bool" where
  "Meteor_update deltaTime m =
     (let m1 = m\<lparr>timer := timer m + deltaTime\<rparr> in
      case state m1 of
        Telegraph \<Rightarrow> (updateTelegraph m1, True)
      | Falling \<Rightarrow> (updateFalling deltaTime m1, True)
      | Destroyed \<Rightarrow> (m1, False)
      | Exploded \<Rightarrow> (m1, False))"

definition Meteor_getBoundingSphere :: "Meteor \<Rightarrow> sphere" where
  "Meteor_getBoundingSphere m = Sphere (meteor_position m) meteorRadius"

definition getExplosionSphere :: "Meteor \<Rightarrow> sphere" where
  "getExplosionSphere m = Sphere (targetPosition m) explosionRadius"

definition getTelegraphPosition :: "Meteor \<Rightarrow> vec3 option" where
  "getTelegraphPosition m = (if state m = Telegraph then Some (targetPosition m) else None)"

definition isExploded :: "Meteor \<Rightarrow> bool" where
  "isExploded m \<longleftrightarrow> state m = Exploded"

definition canBeDestroyed :: "Meteor \<Rightarrow> bool" where
  "canBeDestroyed m \<longleftrightarrow> state m = Falling"

definition setFallSpeed :: "real \<Rightarrow> Meteor \<Rightarrow> Meteor" where
  "setFallSpeed speed m = m\<lparr>fallSpeed := speed\<rparr>"

text \<open>\<^verbatim>\<open>Meteor.generateRandomTarget\<close> draws two random numbers.\<close>

definition generateRandomTarget :: "real \<Rightarrow> real \<Rightarrow> rng \<Rightarrow> vec3 \<times> rng" where
  "generateRandomTarget stageSize margin r =
     (let maxPos = stageSize - margin in
      (Vector3 ((r 0 - 0.5) * maxPos * 2) 0 ((r 1 - 0.5) * maxPos * 2), rngDrop 2 r))"

definition isValidTarget :: "vec3 \<Rightarrow> vec3 list \<Rightarrow> real \<Rightarrow> bool" where
  "isValidTarget newTarget recentTargets minDistance \<longleftrightarrow>
     list_all (\<lambda>recent. \<not> distanceTo newTarget recent < minDistance) recentTargets"


section \<open>Hazard spawner (systems/MeteorSpawner.ts)\<close>

record DifficultyPhase =
  startTime :: real
  endTime :: real
  spawnInterval :: real

record MeteorSpawner =
  meteors :: "Meteor list"
  spawnTimer :: real
  gameTime :: real
  recentTargets :: "vec3 list"
  difficultyPhases :: "DifficultyPhase list"
  debugFrequencyMultiplier :: real
  debugMeteorSpeed :: real

definition maxRecentTargets :: nat where "maxRecentTargets = 2"
definition stageSize :: real where "stageSize = 5"
definition stageMargin :: real where "stageMargin = 0.8"
definition minTargetDistance :: real where "minTargetDistance = 2.0"
definition maxSimultaneousMeteors :: nat where "maxSimultaneousMeteors = 8"

definition MeteorSpawner_new :: MeteorSpawner where
  "MeteorSpawner_new =
     \<lparr>meteors = [], spawnTimer = 0, gameTime = 0, recentTargets = [],
      difficultyPhases =
        [\<lparr>startTime = 0, endTime = 20, spawnInterval = 1.2\<rparr>,
         \<lparr>startTime = 20, endTime = 40, spawnInterval = 0.9\<rparr>,
         \<lparr>startTime = 40, endTime = 60, spawnInterval = 0.7\<rparr>],
      debugFrequencyMultiplier = 1.0, debugMeteorSpeed = 12\<rparr>"

definition getCurrentDifficultyPhase :: "MeteorSpawner \<Rightarrow> DifficultyPhase option" where
  "getCurrentDifficultyPhase s =
     find (\<lambda>phase. gameTime s \<ge> startTime phase \<and> gameTime s < endTime phase)
       (difficultyPhases s)"

text \<open>The loop of \<^verbatim>\<open>generateValidTarget\<close>, counting the attempts that are left; after
  the last attempt the source returns one more random target unchecked.\<close>

fun generateValidTarget_loop :: "nat \<Rightarrow> vec3 list \<Rightarrow> rng \<Rightarrow> vec3 \<times> rng" where
  "generateValidTarget_loop 0 recent r = generateRandomTarget stageSize stageMargin r"
| "generateValidTarget_loop (Suc n) recent r =
     (let (target, r') = generateRandomTarget stageSize stageMargin r in
      if isValidTarget target recent minTargetDistance then (target, r')
      else generateValidTarget_loop n recent r')"

definition generateValidTarget :: "MeteorSpawner \<Rightarrow> rng \<Rightarrow> vec3 \<times> rng" where
  "generateValidTarget s r = generateValidTarget_loop 10 (recentTargets s) r"

definition addRecentTarget :: "vec3 \<Rightarrow> MeteorSpawner \<Rightarrow> MeteorSpawner" where
  "addRecentTarget target s =
     (let pushed = recentTargets s @ [target] in
      s\<lparr>recentTargets := (if length pushed > maxRecentTargets then tl pushed else pushed)\<rparr>)"

text \<open>\<^verbatim>\<open>trySpawnMeteor\<close>: \<^verbatim>\<open>generateValidTarget\<close> never returns null, so the
  source's else branch is dead.\<close>

definition trySpawnMeteor :: "MeteorSpawner \<Rightarrow> rng \<Rightarrow> MeteorSpawner \<times> rng" where
  "trySpawnMeteor s r =
     (if length (meteors s) \<ge> maxSimultaneousMeteors then (s, r)
      else
        (let (target, r') = generateValidTarget s r;
             meteor = setFallSpeed (debugMeteorSpeed s) (Meteor_new target)
         in (addRecentTarget target (s\<lparr>meteors := meteors s @ [meteor]\<rparr>), r')))"

definition updateMeteors :: "real \<Rightarrow> MeteorSpawner \<Rightarrow> MeteorSpawner" where
  "updateMeteors deltaTime s =
     s\<lparr>meteors := map (\<lambda>meteor. fst (Meteor_update deltaTime meteor)) (meteors s)\<rparr>"

text \<open>\<^verbatim>\<open>cleanupMeteors\<close> filters with \<^verbatim>\<open>meteor.update(0)\<close>: every meteor is updated
  once more, with frame time 0, and kept when that call returns true.\<close>

definition cleanupMeteors :: "MeteorSpawner \<Rightarrow> MeteorSpawner" where
  "cleanupMeteors s =
     s\<lparr>meteors := map fst (filter snd (map (Meteor_update 0) (meteors s)))\<rparr>"

text \<open>The cadence test of \<^verbatim>\<open>update\<close>, after the two timers were advanced.\<close>

definition cadenceFires :: "MeteorSpawner \<Rightarrow> bool" where
  "cadenceFires s \<longleftrightarrow>
     (case getCurrentDifficultyPhase s of
        None \<Rightarrow> False
      | Some currentPhase \<Rightarrow>
          spawnTimer s \<ge> spawnInterval currentPhase * debugFrequencyMultiplier s)"

definition advanceTimers :: "real \<Rightarrow> MeteorSpawner \<Rightarrow> MeteorSpawner" where
  "advanceTimers deltaTime s =
     s\<lparr>gameTime := gameTime s + deltaTime, spawnTimer := spawnTimer s + deltaTime\<rparr>"

definition MeteorSpawner_update :: "real \<Rightarrow> MeteorSpawner \<Rightarrow> rng \<Rightarrow> MeteorSpawner \<times> rng" where
  "MeteorSpawner_update deltaTime s r =
     (let s1 = advanceTimers deltaTime s;
          (s2, r2) =
            (if cadenceFires s1 then
               (let (s', r') = trySpawnMeteor s1 r in (s'\<lparr>spawnTimer := 0\<rparr>, r'))
             else (s1, r))
      in (cleanupMeteors (updateMeteors deltaTime s2), r2))"

definition getMeteors :: "MeteorSpawner \<Rightarrow> Meteor list" where
  "getMeteors s = meteors s"

definition getTelegraphPositions :: "MeteorSpawner \<Rightarrow> vec3 list" where
  "getTelegraphPositions s = List.map_filter getTelegraphPosition (meteors s)"

definition MeteorSpawner_reset :: "MeteorSpawner \<Rightarrow> MeteorSpawner" where
  "MeteorSpawner_reset s = s\<lparr>meteors := [], spawnTimer := 0, gameTime := 0, recentTargets := []\<rparr>"

definition setFrequencyMultiplier :: "real \<Rightarrow> MeteorSpawner \<Rightarrow> MeteorSpawner" where
  "setFrequencyMultiplier multiplier s = s\<lparr>debugFrequencyMultiplier := multiplier\<rparr>"

definition setMeteorSpeed :: "real \<Rightarrow> MeteorSpawner \<Rightarrow> MeteorSpawner" where
  "setMeteorSpeed speed s =
     s\<lparr>debugMeteorSpeed := speed, meteors := map (setFallSpeed speed) (meteors s)\<rparr>"

text \<open>
  What the rest of the game does to a spawner between its constructor and any later
  moment: frames (with the random numbers of that frame), the two tuning setters, a
  reset, and the collision system marking the meteor at an index destroyed.
\<close>

datatype spawner_op =
    Frame real rng
  | SetFrequencyMultiplier real
  | SetMeteorSpeed real
  | Reset
  | DestroyAt nat

fun spawner_step :: "spawner_op \<Rightarrow> MeteorSpawner \<Rightarrow> MeteorSpawner" where
  "spawner_step (Frame deltaTime r) s = fst (MeteorSpawner_update deltaTime s r)"
| "spawner_step (SetFrequencyMultiplier x) s = setFrequencyMultiplier x s"
| "spawner_step (SetMeteorSpeed x) s = setMeteorSpeed x s"
| "spawner_step Reset s = MeteorSpawner_reset s"
| "spawner_step (DestroyAt i) s =
     (if i < length (meteors s) then s\<lparr>meteors := (meteors s)[i := destroy (meteors s ! i)]\<rparr>
      else s)"

fun spawner_run :: "spawner_op list \<Rightarrow> MeteorSpawner \<Rightarrow> MeteorSpawner" where
  "spawner_run [] s = s"
| "spawner_run (op # ops) s = spawner_run ops (spawner_step op s)"


section \<open>Creatures (entities/Creature.ts)\<close>

datatype CreatureState = Walking | Fleeing | Idle

record Creature =
  creature_position :: vec3
  creature_velocity :: vec3
  creature_target :: vec3
  creature_state :: CreatureState
  moveTimer :: real
  moveInterval :: real
  isAlive :: bool

definition walkSpeed :: real where "walkSpeed = 1.2"
definition fleeSpeed :: real where "fleeSpeed = 2.0"
definition fleeDistance :: real where "fleeDistance = 2.5"
definition creatureRadius :: real where "creatureRadius = 0.35"
definition creatureStageMargin :: real where "creatureStageMargin = 0.8"

text \<open>\<^verbatim>\<open>generateRandomTarget\<close> of the creature draws two random numbers.\<close>

definition Creature_generateRandomTarget :: "Creature \<Rightarrow> rng \<Rightarrow> Creature \<times> rng" where
  "Creature_generateRandomTarget c r =
     (let stageSize = 5 - creatureStageMargin in
      (c\<lparr>creature_target :=
           Vector3 ((r 0 - 0.5) * stageSize * 2) 0 ((r 1 - 0.5) * stageSize * 2)\<rparr>,
       rngDrop 2 r))"

text \<open>The constructor: \<^verbatim>\<open>createMesh\<close> draws one random number for the colour, then
  \<^verbatim>\<open>generateRandomTarget\<close> draws two.\<close>

definition Creature_new :: "vec3 \<Rightarrow> rng \<Rightarrow> Creature \<times> rng" where
  "Creature_new spawnPosition r =
     Creature_generateRandomTarget
       \<lparr>creature_position = spawnPosition, creature_velocity = Vector3 0 0 0,
        creature_target = spawnPosition, creature_state = Walking, moveTimer = 0,
        moveInterval = 2.0, isAlive = True\<rparr>
       (rngDrop 1 r)"

text \<open>\<^verbatim>\<open>findNearestThreat\<close>: the accumulator is \<open>None\<close> while \<^verbatim>\<open>minDistance\<close> is
  still Infinity.\<close>

fun findNearestThreat_loop ::
  "vec3 \<Rightarrow> vec3 list \<Rightarrow> (vec3 \<times> real) option \<Rightarrow> (vec3 \<times> real) option" where
  "findNearestThreat_loop pos [] nearest = nearest"
| "findNearestThreat_loop pos (meteorPos # rest) nearest =
     (let distance = distanceTo pos meteorPos in
      if (case nearest of None \<Rightarrow> True | Some (_, minDistance) \<Rightarrow> distance < minDistance)
      then findNearestThreat_loop pos rest (Some (meteorPos, distance))
      else findNearestThreat_loop pos rest nearest)"

definition findNearestThreat :: "Creature \<Rightarrow> vec3 list \<Rightarrow> (vec3 \<times> real) option" where
  "findNearestThreat c meteorPositions =
     findNearestThreat_loop (creature_position c) meteorPositions None"

definition constrainTargetToStage :: "Creature \<Rightarrow> Creature" where
  "constrainTargetToStage c =
     (let maxPos = 5 - creatureStageMargin; minPos = - maxPos in
      c\<lparr>creature_target :=
          Vector3 (max minPos (min maxPos (vecx (creature_target c))))
                  (vecy (creature_target c))
                  (max minPos (min maxPos (vecz (creature_target c))))\<rparr>)"

definition calculateFleeTarget :: "vec3 \<Rightarrow> Creature \<Rightarrow> Creature" where
  "calculateFleeTarget threatPosition c =
     (let fleeDirection = normalizeVector (vsub (creature_position c) threatPosition) in
      constrainTargetToStage
        (c\<lparr>creature_target := vadd (creature_position c) (multiplyScalar fleeDirection 3.0)\<rparr>))"

definition updateWalkingBehavior :: "real \<Rightarrow> Creature \<Rightarrow> rng \<Rightarrow> Creature \<times> rng" where
  "updateWalkingBehavior deltaTime c r =
     (let c1 = c\<lparr>moveTimer := moveTimer c + deltaTime\<rparr>;
          distanceToTarget = distanceTo (creature_position c1) (creature_target c1)
      in if distanceToTarget < 0.5 \<or> moveTimer c1 > moveInterval c1 then
           (let (c2, r2) = Creature_generateRandomTarget c1 r in
            (c2\<lparr>moveTimer := 0, moveInterval := 1.5 + r2 0 * 2.0\<rparr>, rngDrop 1 r2))
         else (c1, r))"

definition updateBehavior :: "real \<Rightarrow> vec3 list \<Rightarrow> Creature \<Rightarrow> rng \<Rightarrow> Creature \<times> rng" where
  "updateBehavior deltaTime meteorPositions c r =
     (let walk = (let (c1, r1) = (if creature_state c = Fleeing
                                   then Creature_generateRandomTarget (c\<lparr>creature_state := Walking\<rparr>) r
                                   else (c, r))
                  in updateWalkingBehavior deltaTime c1 r1)
      in case findNearestThreat c meteorPositions of
           None \<Rightarrow> walk
         | Some (threatPosition, distance) \<Rightarrow>
             if distance < fleeDistance then
               (calculateFleeTarget threatPosition (c\<lparr>creature_state := Fleeing\<rparr>), r)
             else walk)"

definition Creature_updateMovement :: "Creature \<Rightarrow> Creature" where
  "Creature_updateMovement c =
     (let dir = setY (vsub (creature_target c) (creature_position c)) 0 in
      if vlength dir > 0.1 then
        (let speed = (if creature_state c = Fleeing then fleeSpeed else walkSpeed) in
         c\<lparr>creature_velocity := multiplyScalar (normalizeVector dir) speed\<rparr>)
      else c\<lparr>creature_velocity := multiplyScalar (creature_velocity c) 0.9\<rparr>)"

definition updatePosition :: "real \<Rightarrow> Creature \<Rightarrow> Creature" where
  "updatePosition deltaTime c =
     (let moved = vadd (creature_position c) (multiplyScalar (creature_velocity c) deltaTime);
          maxPos = 5 - creatureStageMargin; minPos = - maxPos
      in c\<lparr>creature_position :=
            Vector3 (max minPos (min maxPos (vecx moved))) (creatureRadius / 2)
                    (max minPos (min maxPos (vecz moved)))\<rparr>)"

definition Creature_update :: "real \<Rightarrow> vec3 list \<Rightarrow> Creature \<Rightarrow> rng \<Rightarrow> Creature \<times> rng" where
  "Creature_update deltaTime meteorPositions c r =
     (if \<not> isAlive c then (c, r)
      else
        (let (c1, r1) = updateBehavior deltaTime meteorPositions c r in
         (updatePosition deltaTime (Creature_updateMovement c1), r1)))"

definition takeDamage :: "Creature \<Rightarrow> Creature" where
  "takeDamage c = c\<lparr>isAlive := False\<rparr>"

definition Creature_getBoundingSphere :: "Creature \<Rightarrow> sphere" where
  "Creature_getBoundingSphere c = Sphere (creature_position c) creatureRadius"

definition createSpawnPositions :: "vec3 list" where
  "createSpawnPositions = [Vector3 (- 2) 0.35 (- 2), Vector3 2 0.35 2, Vector3 (- 1) 0.35 3]"

text \<open>\<^verbatim>\<open>creatures.forEach(creature => creature.update(...))\<close> and
  \<^verbatim>\<open>spawnPositions.map(pos => new Creature(pos))\<close>, with the random stream passed on.\<close>

fun updateCreatures :: "real \<Rightarrow> vec3 list \<Rightarrow> Creature list \<Rightarrow> rng \<Rightarrow> Creature list \<times> rng" where
  "updateCreatures deltaTime positions [] r = ([], r)"
| "updateCreatures deltaTime positions (c # cs) r =
     (let (c', r1) = Creature_update deltaTime positions c r;
          (cs', r2) = updateCreatures deltaTime positions cs r1
      in (c' # cs', r2))"

fun newCreatures :: "vec3 list \<Rightarrow> rng \<Rightarrow> Creature list \<times> rng" where
  "newCreatures [] r = ([], r)"
| "newCreatures (pos # rest) r =
     (let (c, r1) = Creature_new pos r; (cs, r2) = newCreatures rest r1 in (c # cs, r2))"


section \<open>Collision and event resolver (systems/CollisionSystem.ts)\<close>

text \<open>
  An event carries the data that \<^verbatim>\<open>Game.handleCollisionEvent\<close> can read; the object
  references of the source are the indices of the meteor and the creature in their
  arrays. The three passes return the entities they changed and the events they pushed.
  \<^verbatim>\<open>applyKnockback\<close> normalises and scales its direction argument in place, and the
  player-hit event holds that same vector object, so the direction in the event is the
  knockback direction scaled by the force (8 for an explosion, 10 for a direct hit).
\<close>

datatype CollisionEvent =
    punch_hit_meteor nat vec3
  | meteor_explosion nat vec3 real
  | meteor_hit_player nat vec3 vec3 bool
  | meteor_hit_creature nat nat vec3 bool

fun punchLoop :: "sphere \<Rightarrow> nat \<Rightarrow> Meteor list \<Rightarrow> Meteor list \<times> CollisionEvent list" where
  "punchLoop ps i [] = ([], [])"
| "punchLoop ps i (meteor # rest) =
     (let (rest', events) = punchLoop ps (Suc i) rest in
      if \<not> canBeDestroyed meteor then (meteor # rest', events)
      else if sphereIntersectsSphere ps (Meteor_getBoundingSphere meteor) then
        (destroy meteor # rest', punch_hit_meteor i (meteor_position meteor) # events)
      else (meteor # rest', events))"

definition checkPunchVsMeteors :: "Player \<Rightarrow> Meteor list \<Rightarrow> Meteor list \<times> CollisionEvent list" where
  "checkPunchVsMeteors p ms =
     (case getPunchSphere p of
        None \<Rightarrow> (ms, [])
      | Some ps \<Rightarrow> punchLoop ps 0 ms)"

text \<open>The inner loop over the creatures, shared by the explosion pass and the direct-hit
  pass (\<open>direct\<close> is the event's \<^verbatim>\<open>directHit\<close>).\<close>

fun hitCreatures ::
  "sphere \<Rightarrow> nat \<Rightarrow> bool \<Rightarrow> nat \<Rightarrow> Creature list \<Rightarrow> Creature list \<times> CollisionEvent list" where
  "hitCreatures sp mi direct j [] = ([], [])"
| "hitCreatures sp mi direct j (creature # rest) =
     (let (rest', events) = hitCreatures sp mi direct (Suc j) rest in
      if \<not> isAlive creature then (creature # rest', events)
      else if sphereIntersectsSphere sp (Creature_getBoundingSphere creature) then
        (takeDamage creature # rest',
         meteor_hit_creature mi j (creature_position creature) direct # events)
      else (creature # rest', events))"

fun checkMeteorExplosions_loop ::
  "nat \<Rightarrow> Meteor list \<Rightarrow> Player \<Rightarrow> Creature list \<Rightarrow> Player \<times> Creature list \<times> CollisionEvent list" where
  "checkMeteorExplosions_loop i [] p cs = (p, cs, [])"
| "checkMeteorExplosions_loop i (meteor # rest) p cs =
     (if \<not> isExploded meteor then checkMeteorExplosions_loop (Suc i) rest p cs
      else
        (let explosionSphere = getExplosionSphere meteor;
             (cs1, creatureEvents) = hitCreatures explosionSphere i False 0 cs;
             knockbackDirection = normalizeVector (vsub (position p) (targetPosition meteor));
             (p1, playerEvents) =
               (if sphereIntersectsSphere explosionSphere (Player_getBoundingSphere p) then
                  (applyKnockback knockbackDirection 8 p,
                   [meteor_hit_player i (position p)
                      (multiplyScalar (normalizeVector knockbackDirection) 8) False])
                else (p, []));
             (p2, cs2, events) = checkMeteorExplosions_loop (Suc i) rest p1 cs1
         in (p2, cs2,
             creatureEvents @ playerEvents @
             [meteor_explosion i (targetPosition meteor) (radius explosionSphere)] @ events)))"

definition checkMeteorExplosions ::
  "Player \<Rightarrow> Creature list \<Rightarrow> Meteor list \<Rightarrow> Player \<times> Creature list \<times> CollisionEvent list" where
  "checkMeteorExplosions p cs ms = checkMeteorExplosions_loop 0 ms p cs"

fun checkDirectMeteorHits_loop ::
  "nat \<Rightarrow> Meteor list \<Rightarrow> Player \<Rightarrow> Creature list \<Rightarrow> Player \<times> Creature list \<times> CollisionEvent list" where
  "checkDirectMeteorHits_loop i [] p cs = (p, cs, [])"
| "checkDirectMeteorHits_loop i (meteor # rest) p cs =
     (if state meteor \<noteq> Falling then checkDirectMeteorHits_loop (Suc i) rest p cs
      else
        (let meteorSphere = Meteor_getBoundingSphere meteor;
             (cs1, creatureEvents) = hitCreatures meteorSphere i True 0 cs;
             knockbackDirection = normalizeVector (vsub (position p) (meteor_position meteor));
             (p1, playerEvents) =
               (if sphereIntersectsSphere meteorSphere (Player_getBoundingSphere p) then
                  (applyKnockback knockbackDirection 10 p,
                   [meteor_hit_player i (position p)
                      (multiplyScalar (normalizeVector knockbackDirection) 10) True])
                else (p, []));
             (p2, cs2, events) = checkDirectMeteorHits_loop (Suc i) rest p1 cs1
         in (p2, cs2, creatureEvents @ playerEvents @ events)))"

definition checkDirectMeteorHits ::
  "Player \<Rightarrow> Creature list \<Rightarrow> Meteor list \<Rightarrow> Player \<times> Creature list \<times> CollisionEvent list" where
  "checkDirectMeteorHits p cs ms = checkDirectMeteorHits_loop 0 ms p cs"

definition CollisionSystem_update ::
  "Player \<Rightarrow> Creature list \<Rightarrow> Meteor list \<Rightarrow>
   Player \<times> Creature list \<times> Meteor list \<times> CollisionEvent list" where
  "CollisionSystem_update p cs ms =
     (let (ms1, punchEvents) = checkPunchVsMeteors p ms;
          (p1, cs1, explosionEvents) = checkMeteorExplosions p cs ms1;
          (p2, cs2, directEvents) = checkDirectMeteorHits p1 cs1 ms1
      in (p2, cs2, ms1, punchEvents @ explosionEvents @ directEvents))"


section \<open>Session and game loop (Game.ts)\<close>

text \<open>
  The simulation state of the class \<^verbatim>\<open>Game\<close>. The input snapshot of the input
  manager, the camera's forward direction and the random stream are fields of the
  record, written at the start of a frame; renderer, scene, HUD and effects are left out.
  The state machine carries the game as its world, so the phase is
  \<open>currentState\<close> of a \<open>Game StateMachine\<close>.
\<close>

record Game =
  player :: Player
  creatures :: "Creature list"
  meteorSpawner :: MeteorSpawner
  gameTimer :: real
  aliveCreatures :: int
  isGameRunning :: bool
  inputState :: InputState
  cameraForward :: vec3
  random :: rng

definition handleCollisionEvent :: "CollisionEvent \<Rightarrow> Game \<Rightarrow> Game" where
  "handleCollisionEvent event g =
     (case event of
        meteor_hit_creature mi ci pos direct \<Rightarrow>
          g\<lparr>aliveCreatures := int (length (filter isAlive (creatures g)))\<rparr>
      | punch_hit_meteor mi pos \<Rightarrow> g
      | meteor_hit_player mi pos dir direct \<Rightarrow> g
      | meteor_explosion mi pos rad \<Rightarrow> g)"

text \<open>\<^verbatim>\<open>updateGameEntities\<close>: player, creatures, spawner, collisions, events, in the
  source's order. The result is \<open>None\<close> when the player update divides 0 by 0.\<close>

definition updateGameEntities :: "real \<Rightarrow> Game \<Rightarrow> Game option" where
  "updateGameEntities deltaTime g =
     (case Player_update deltaTime (inputState g) (Some (cameraForward g)) (player g) of
        None \<Rightarrow> None
      | Some p1 \<Rightarrow>
          (let telegraphPositions = getTelegraphPositions (meteorSpawner g);
               (cs1, r1) = updateCreatures deltaTime telegraphPositions (creatures g) (random g);
               (sp1, r2) = MeteorSpawner_update deltaTime (meteorSpawner g) r1;
               (p2, cs2, ms2, events) = CollisionSystem_update p1 cs1 (getMeteors sp1);
               g1 = g\<lparr>player := p2, creatures := cs2, meteorSpawner := sp1\<lparr>meteors := ms2\<rparr>,
                      random := r2\<rparr>
           in Some (foldl (\<lambda>g' event. handleCollisionEvent event g') g1 events)))"

definition checkGameConditions :: "Game StateMachine \<Rightarrow> Game StateMachine" where
  "checkGameConditions m =
     (if aliveCreatures (world m) \<le> 0 then transitionTo Result m
      else if gameTimer (world m) \<le> 0 then transitionTo Result m
      else m)"

definition updateGame :: "real \<Rightarrow> Game StateMachine \<Rightarrow> Game StateMachine option" where
  "updateGame deltaTime m =
     (let g = (world m)\<lparr>gameTimer := gameTimer (world m) - deltaTime\<rparr> in
      case updateGameEntities deltaTime g of
        None \<Rightarrow> None
      | Some g' \<Rightarrow> Some (checkGameConditions (m\<lparr>world := g'\<rparr>)))"

definition startGame :: "Game \<Rightarrow> Game" where
  "startGame g =
     (let (cs, r) = newCreatures createSpawnPositions (random g) in
      g\<lparr>isGameRunning := True, gameTimer := 60, aliveCreatures := 3,
        meteorSpawner := MeteorSpawner_reset (meteorSpawner g), creatures := cs, random := r\<rparr>)"

text \<open>The handlers of \<^verbatim>\<open>setupStateMachine\<close>: the callbacks that only log or change
  the page are the identity.\<close>

definition gameHandlers :: "GameState \<Rightarrow> Game StateHandler option" where
  "gameHandlers s =
     (case s of
        Boot \<Rightarrow> Some \<lparr>onEnter = Some (\<lambda>g. g), onExit = None\<rparr>
      | Title \<Rightarrow> Some \<lparr>onEnter = Some (\<lambda>g. g), onExit = None\<rparr>
      | Play \<Rightarrow> Some \<lparr>onEnter = Some startGame, onExit = Some (\<lambda>g. g\<lparr>isGameRunning := False\<rparr>)\<rparr>
      | Result \<Rightarrow> Some \<lparr>onEnter = Some (\<lambda>g. g), onExit = None\<rparr>)"

text \<open>\<^verbatim>\<open>StateMachine.update\<close> with the update closures of \<^verbatim>\<open>setupStateMachine\<close>
  (Boot has none).\<close>

definition StateMachine_update :: "real \<Rightarrow> Game StateMachine \<Rightarrow> Game StateMachine option" where
  "StateMachine_update deltaTime m =
     (let inp = inputState (world m) in
      case currentState m of
        Boot \<Rightarrow> Some m
      | Title \<Rightarrow>
          Some (if jumpPressed inp \<or> punchPressed inp then transitionTo Play m else m)
      | Play \<Rightarrow> updateGame deltaTime m
      | Result \<Rightarrow>
          Some (if jumpPressed inp then transitionTo Play m
                else if punchPressed inp then transitionTo Title m
                else m))"

text \<open>\<^verbatim>\<open>Game.update\<close>: the input manager and the camera supply this frame's input and
  forward direction; after the state machine's update the entities are updated again
  while the game is running.\<close>

definition Game_update ::
  "real \<Rightarrow> InputState \<Rightarrow> vec3 \<Rightarrow> Game StateMachine \<Rightarrow> Game StateMachine option" where
  "Game_update deltaTime inp cam m =
     (let m0 = m\<lparr>world := (world m)\<lparr>inputState := inp, cameraForward := cam\<rparr>\<rparr> in
      case StateMachine_update deltaTime m0 of
        None \<Rightarrow> None
      | Some m1 \<Rightarrow>
          if isGameRunning (world m1) then
            (case updateGameEntities deltaTime (world m1) of
               None \<Rightarrow> None
             | Some g \<Rightarrow> Some (m1\<lparr>world := g\<rparr>))
          else Some m1)"

text \<open>The alive-creature count of the session agrees with the creature collection.\<close>

definition sessionConsistent :: "Game \<Rightarrow> bool" where
  "sessionConsistent g \<longleftrightarrow> aliveCreatures g = int (length (filter isAlive (creatures g)))"


text \<open>The constructor of \<^verbatim>\<open>Game\<close> (the three creatures draw their random
  numbers), the timer that \<^verbatim>\<open>start\<close> sets to leave Boot, and a run of the game: frames
  and that timer, in any order.\<close>

definition Game_new :: "rng \<Rightarrow> InputState \<Rightarrow> vec3 \<Rightarrow> Game StateMachine" where
  "Game_new r inp cam =
     (let (cs, r') = newCreatures createSpawnPositions r in
      \<lparr>currentState = Boot, stateHandlers = gameHandlers,
       world = \<lparr>player = Player_new, creatures = cs, meteorSpawner = MeteorSpawner_new,
                gameTimer = 60, aliveCreatures = 3, isGameRunning = False,
                inputState = inp, cameraForward = cam, random = r'\<rparr>,
       calls = []\<rparr>)"

definition Game_bootTimer :: "Game StateMachine \<Rightarrow> Game StateMachine" where
  "Game_bootTimer m = transitionTo Title m"

datatype game_step = Tick real InputState vec3 | BootTimer

fun Game_run :: "game_step list \<Rightarrow> Game StateMachine \<Rightarrow> Game StateMachine option" where
  "Game_run [] m = Some m"
| "Game_run (Tick deltaTime inp cam # steps) m =
     (case Game_update deltaTime inp cam m of
        None \<Rightarrow> None
      | Some m' \<Rightarrow> Game_run steps m')"
| "Game_run (BootTimer # steps) m = Game_run steps (Game_bootTimer m)"

text \<open>What every run of the game keeps: the handlers are those of
  \<^verbatim>\<open>setupStateMachine\<close> and the alive count agrees with the creature collection.\<close>

definition gameInvariant :: "Game StateMachine \<Rightarrow> bool" where
  "gameInvariant m \<longleftrightarrow> stateHandlers m = gameHandlers \<and> sessionConsistent (world m)"


section \<open>Example player states and inputs\<close>

text \<open>The player at rest on the ground in the middle of the stage, and at the east edge
  of the walkable area (x = 4.5), as \<^verbatim>\<open>updateGroundCheck\<close> leaves a grounded player.\<close>

definition standing :: Player where
  "standing =
     Player_new\<lparr>position := Vector3 0 (getTerrainHeight 0 0 + 0.6) 0, isGrounded := True\<rparr>"

definition atEastEdge :: Player where
  "atEastEdge =
     Player_new\<lparr>position := Vector3 4.5 (getTerrainHeight 4.5 0 + 0.6) 0, isGrounded := True\<rparr>"

definition jumpInput :: InputState where
  "jumpInput = noInput\<lparr>jump := True, jumpPressed := True\<rparr>"

definition moveRight :: InputState where
  "moveRight = noInput\<lparr>movement_x := 1\<rparr>"

definition frameOf :: "real \<Rightarrow> InputState \<Rightarrow> frame" where
  "frameOf dt i = \<lparr>frame_dt = dt, frame_input = i, frame_camera = None\<rparr>"

text \<open>The player in the air above the middle of the stage: height above the terrain,
  vertical speed, punch flag and timer, and the height of the punch sphere.\<close>

definition jumpState :: "real \<Rightarrow> real \<Rightarrow> bool \<Rightarrow> real \<Rightarrow> real \<Rightarrow> Player" where
  "jumpState h v active t sh =
     \<lparr>position = Vector3 0 (getTerrainHeight 0 0 + h) 0, velocity = Vector3 0 v 0,
      isGrounded = False, punchActive = active, punchTimer = t, knockbackTimer = 0,
      isKnockedBack = False, moveSpeed = 4, direction = Vector3 0 0 0,
      punchSphere = Sphere (Vector3 0 (getTerrainHeight 0 0 + sh) (- 0.7)) 0.6\<rparr>"

text \<open>A jump followed by three frames without input, a tenth of a second each.\<close>

definition jumpFrames :: "frame list" where
  "jumpFrames = [frameOf (1 / 10) jumpInput, frameOf (1 / 10) noInput, frameOf (1 / 10) noInput,
     frameOf (1 / 10) noInput]"

definition pressedFrames :: "frame list" where
  "pressedFrames =
     [frameOf (1 / 10) jumpInput, frameOf (1 / 10) moveRight, frameOf (1 / 10) jumpInput]"

definition idleFrames :: "frame list" where
  "idleFrames = [frameOf (1 / 10) noInput, frameOf (1 / 10) noInput, frameOf (1 / 10) noInput]"




section \<open>Notions for the player claims\<close>

text \<open>A frame activates the punch when \<^verbatim>\<open>Player.update\<close> reaches \<^verbatim>\<open>updatePunch\<close>
  and takes its first block. \<open>punchActivations\<close> counts these frames along a run, and
  \<open>airborneRun\<close> says that the player is off the ground after every frame of the run.\<close>

definition activatesInFrame :: "frame \<Rightarrow> Player \<Rightarrow> bool" where
  "activatesInFrame f p \<longleftrightarrow>
     \<not> isKnockedBack p \<and>
     (case updateMovement (frame_dt f) (frame_input f) (frame_camera f) p of
        None \<Rightarrow> False
      | Some p1 \<Rightarrow> punchActivates (updateJump (frame_input f) p1))"

fun punchActivations :: "frame list \<Rightarrow> Player \<Rightarrow> nat" where
  "punchActivations [] p = 0"
| "punchActivations (f # fs) p =
     (if activatesInFrame f p then 1 else 0) +
     (case Player_update (frame_dt f) (frame_input f) (frame_camera f) p of
        None \<Rightarrow> 0
      | Some p' \<Rightarrow> punchActivations fs p')"

fun airborneRun :: "frame list \<Rightarrow> Player \<Rightarrow> bool" where
  "airborneRun [] p = True"
| "airborneRun (f # fs) p =
     (case Player_update (frame_dt f) (frame_input f) (frame_camera f) p of
        None \<Rightarrow> False
      | Some p' \<Rightarrow> \<not> isGrounded p' \<and> airborneRun fs p')"


text \<open>The recovery timer \<open>t\<close> has not elapsed at the start of any frame of a run with
  these frame times (the time of the last frame does not matter).\<close>

fun recoveryCovers :: "real list \<Rightarrow> real \<Rightarrow> bool" where
  "recoveryCovers [] t = True"
| "recoveryCovers [d] t = True"
| "recoveryCovers (d # ds) t = (0 < t - d \<and> recoveryCovers ds (t - d))"


section \<open>Example spawners\<close>

text \<open>A spawner five seconds into the session with eight hazards in their telegraph
  phase and the cadence about to fire; and a spawner whose only hazard was spawned above
  the origin 1.9 s ago and has fallen to height 1.2.\<close>

definition fullSpawner :: MeteorSpawner where
  "fullSpawner =
     MeteorSpawner_new\<lparr>meteors := replicate 8 (Meteor_new (Vector3 0 0 0)),
       spawnTimer := 6 / 5, gameTime := 5\<rparr>"

definition lowMeteor :: Meteor where
  "lowMeteor =
     \<lparr>meteor_position = Vector3 0 (6 / 5) 0, meteor_velocity = Vector3 0 (- 12) 0,
      targetPosition = Vector3 0 0 0, state = Falling, timer = 19 / 10, fallSpeed = 12\<rparr>"

definition fallingSpawner :: MeteorSpawner where
  "fallingSpawner = MeteorSpawner_new\<lparr>meteors := [lowMeteor], gameTime := 19 / 10\<rparr>"

definition halves :: rng where
  "halves = (\<lambda>n. 1 / 2)"


section \<open>Notions and example states for the session\<close>

text \<open>The events after which \<^verbatim>\<open>handleCollisionEvent\<close> recomputes the alive count.\<close>

definition isCreatureHit :: "CollisionEvent \<Rightarrow> bool" where
  "isCreatureHit e = (case e of meteor_hit_creature mi ci pos direct \<Rightarrow> True | _ \<Rightarrow> False)"

text \<open>A game half a minute into a session in which all three creatures have died, and
  the state machine in the Play phase with the handlers of \<^verbatim>\<open>setupStateMachine\<close>.\<close>

definition lostGame :: Game where
  "lostGame =
     \<lparr>player = standing,
      creatures = map takeDamage (fst (newCreatures createSpawnPositions halves)),
      meteorSpawner = MeteorSpawner_new, gameTimer = 30, aliveCreatures = 0,
      isGameRunning = True, inputState = noInput, cameraForward = Vector3 0 0 (- 1),
      random = halves\<rparr>"

definition playMachine :: "Game \<Rightarrow> Game StateMachine" where
  "playMachine g = \<lparr>currentState = Play, stateHandlers = gameHandlers, world = g, calls = []\<rparr>"


section \<open>Notions and example states for melee against falling hazards\<close>

text \<open>The test of \<^verbatim>\<open>updateFalling\<close>: after this frame's fall the hazard is at or below
  terrain height plus its radius.\<close>

definition hitsTerrain :: "real \<Rightarrow> Meteor \<Rightarrow> bool" where
  "hitsTerrain deltaTime m \<longleftrightarrow>
     (let pos = vadd (meteor_position m) (multiplyScalar (meteor_velocity m) deltaTime) in
      vecy pos \<le> getTerrainHeight (vecx pos) (vecz pos) + meteorRadius)"

text \<open>Two hazards falling towards the point 0.7 in front of the stage centre: one at
  height 1, which a frame of 0.1 s takes down to the terrain, and one at height 2.4. A
  game whose player stands at the centre and jumps in this frame, with the camera looking
  along -z and the lower hazard as the only one; and the punch sphere of that jump.\<close>

definition nearMeteor :: Meteor where
  "nearMeteor =
     \<lparr>meteor_position = Vector3 0 1 (- (7 / 10)), meteor_velocity = Vector3 0 (- 12) 0,
      targetPosition = Vector3 0 0 (- (7 / 10)), state = Falling, timer = 23 / 12, fallSpeed = 12\<rparr>"

definition highMeteor :: Meteor where
  "highMeteor =
     \<lparr>meteor_position = Vector3 0 (12 / 5) (- (7 / 10)), meteor_velocity = Vector3 0 (- 12) 0,
      targetPosition = Vector3 0 0 (- (7 / 10)), state = Falling, timer = 9 / 5, fallSpeed = 12\<rparr>"

definition meleeGame :: Game where
  "meleeGame =
     \<lparr>player = standing,
      creatures = fst (newCreatures createSpawnPositions halves),
      meteorSpawner = MeteorSpawner_new\<lparr>meteors := [nearMeteor], gameTime := 23 / 12\<rparr>,
      gameTimer = 58, aliveCreatures = 3, isGameRunning = True, inputState = jumpInput,
      cameraForward = Vector3 0 0 (- 1), random = halves\<rparr>"

definition jumpPunchSphere :: sphere where
  "jumpPunchSphere = Sphere (Vector3 0 (getTerrainHeight 0 0 + 3 / 5) (- (7 / 10))) (3 / 5)"


section \<open>Properties of the state controller\<close>

lemma canTransitionTo_spec:
  "canTransitionTo m t \<longleftrightarrow> (currentState m, t) \<in> set spec_adjacency"
  by (cases "currentState m"; cases t) (simp_all add: canTransitionTo_def spec_adjacency_def)

lemma runOnExit_state [simp]: "currentState (runOnExit m) = currentState m"
  by (simp add: runOnExit_def split: option.splits)

lemma runOnExit_handlers [simp]: "stateHandlers (runOnExit m) = stateHandlers m"
  by (simp add: runOnExit_def split: option.splits)

lemma runOnExit_calls: "calls (runOnExit m) = calls m @ exit_call m"
  by (simp add: runOnExit_def exit_call_def split: option.splits)

lemma runOnEnter_state [simp]: "currentState (runOnEnter m) = currentState m"
  by (simp add: runOnEnter_def split: option.splits)

lemma runOnEnter_calls:
  "calls (runOnEnter m) = calls m @ enter_call m (currentState m)"
  by (simp add: runOnEnter_def enter_call_def split: option.splits)

text \<open>
  C6. A request whose pair (current phase, target) is not in the adjacency table leaves
  the whole machine as it was: same phase, same world, and no callback added to the log.
  A request whose pair is in the table sets the phase to the target and adds to the log
  the old phase's onExit (when registered) followed by the new phase's onEnter (when
  registered), and nothing else.
\<close>

theorem transitionTo_adjacency:
  "((currentState m, t) \<notin> set spec_adjacency \<longrightarrow> transitionTo t m = m) \<and>
   ((currentState m, t) \<in> set spec_adjacency \<longrightarrow>
      currentState (transitionTo t m) = t \<and>
      calls (transitionTo t m) = calls m @ exit_call m @ enter_call m t)"
proof (intro conjI impI)
  assume "(currentState m, t) \<notin> set spec_adjacency"
  then show "transitionTo t m = m"
    by (simp add: transitionTo_def canTransitionTo_spec)
next
  assume ok: "(currentState m, t) \<in> set spec_adjacency"
  then show "currentState (transitionTo t m) = t"
    by (simp add: transitionTo_def canTransitionTo_spec)
next
  assume ok: "(currentState m, t) \<in> set spec_adjacency"
  have "enter_call ((runOnExit m)\<lparr>currentState := t\<rparr>) t = enter_call m t"
    by (simp add: enter_call_def)
  with ok show "calls (transitionTo t m) = calls m @ exit_call m @ enter_call m t"
    by (simp add: transitionTo_def canTransitionTo_spec runOnEnter_calls runOnExit_calls)
qed

theorem transitionTo_adjacency_witness:
  "(Boot, Play) \<notin> set spec_adjacency \<and>
   transitionTo Play (example_machine Boot) = example_machine Boot \<and>
   (Play, Result) \<in> set spec_adjacency \<and>
   currentState (transitionTo Result (example_machine Play)) = Result \<and>
   calls (transitionTo Result (example_machine Play)) = [OnExit Play, OnEnter Result] \<and>
   world (transitionTo Result (example_machine Play)) = 8"
proof -
  have bad: "(Boot, Play) \<notin> set spec_adjacency"
    by (simp add: spec_adjacency_def)
  have good: "(Play, Result) \<in> set spec_adjacency"
    by (simp add: spec_adjacency_def)
  have s1: "currentState (example_machine Boot) = Boot"
    and s2: "currentState (example_machine Play) = Play"
    by (simp_all add: example_machine_def)
  have a: "transitionTo Play (example_machine Boot) = example_machine Boot"
    using transitionTo_adjacency [of "example_machine Boot" Play] bad s1 by simp
  have b: "currentState (transitionTo Result (example_machine Play)) = Result \<and>
      calls (transitionTo Result (example_machine Play)) =
        calls (example_machine Play) @ exit_call (example_machine Play) @
        enter_call (example_machine Play) Result"
    using transitionTo_adjacency [of "example_machine Play" Result] good s2 by simp
  have c: "calls (example_machine Play) @ exit_call (example_machine Play) @
        enter_call (example_machine Play) Result = [OnExit Play, OnEnter Result]"
    by (simp add: example_machine_def example_handlers_def exit_call_def enter_call_def)
  have d: "world (transitionTo Result (example_machine Play)) = 8"
    by (simp add: transitionTo_def canTransitionTo_def runOnExit_def runOnEnter_def
        example_machine_def example_handlers_def)
  from bad good a b c d show ?thesis by simp
qed

section \<open>Properties of the terrain and the player\<close>

lemma prod_bound: "\<bar>a\<bar> \<le> 1 \<Longrightarrow> \<bar>b\<bar> \<le> 1 \<Longrightarrow> \<bar>a * b * c\<bar> \<le> \<bar>c\<bar>" for a b c :: real
proof -
  assume a: "\<bar>a\<bar> \<le> 1" and b: "\<bar>b\<bar> \<le> 1"
  have "\<bar>a * b\<bar> \<le> 1 * 1" unfolding abs_mult using a b by (intro mult_mono) auto
  then have "\<bar>a * b\<bar> * \<bar>c\<bar> \<le> 1 * \<bar>c\<bar>" by (intro mult_right_mono) auto
  then show ?thesis by (simp add: abs_mult)
qed

lemma sum3_bound: "\<bar>a\<bar> \<le> 0.3 \<Longrightarrow> \<bar>b\<bar> \<le> 0.2 \<Longrightarrow> \<bar>c\<bar> \<le> 0.15 \<Longrightarrow> \<bar>a + b + c\<bar> \<le> 0.65" for a b c :: real
  unfolding abs_le_iff by auto

lemma getTerrainHeight_bound: "\<bar>getTerrainHeight x z\<bar> \<le> 0.65"
proof -
  have 1: "\<bar>sin (x * 0.8) * cos (- z * 0.8) * 0.3\<bar> \<le> 0.3"
    using prod_bound [of "sin (x * 0.8)" "cos (- z * 0.8)" "0.3"] by simp
  have 2: "\<bar>sin (x * 1.5 + 1) * sin (- z * 1.2 + 0.5) * 0.2\<bar> \<le> 0.2"
    using prod_bound [of "sin (x * 1.5 + 1)" "sin (- z * 1.2 + 0.5)" "0.2"] by simp
  have 3: "\<bar>cos (x * 0.5 - - z * 0.7) * 0.15\<bar> \<le> 0.15"
    using prod_bound [of "cos (x * 0.5 - - z * 0.7)" 1 "0.15"] by simp
  show ?thesis unfolding getTerrainHeight_def Let_def by (rule sum3_bound [OF 1 2 3])
qed

lemma getTerrainHeight_lower: "- (13 / 20) \<le> getTerrainHeight x z"
  using getTerrainHeight_bound [of x z] unfolding abs_le_iff by simp

lemma getTerrainHeight_upper: "getTerrainHeight x z \<le> 13 / 20"
  using getTerrainHeight_bound [of x z] unfolding abs_le_iff by simp

lemmas player_defs = Player_update_def updateMovement_def
   vlength_def constrainToStage_def updateJump_def updatePunch_def punchActivates_def placePunchSphere_def
   punchDirection_def updatePhysics_def updateGroundCheck_def respawn_def setY_def vadd_def multiplyScalar_def
   jumpSpeed_def gravity_def punchDuration_def punchOffset_def punchRadius_def normalizeVector_def
   updateKnockback_def applyKnockback_def knockbackDuration_def airControlFactor_def

lemmas example_defs = standing_def atEastEdge_def Player_new_def jumpInput_def moveRight_def
   noInput_def frameOf_def

lemma jump_frame1:
  "Player_update (1 / 10) jumpInput None standing = Some (jumpState (127 / 100) (67 / 10) True (3 / 20) (3 / 5))"
  using getTerrainHeight_lower [of 0 0]
  by (simp add: player_defs example_defs jumpState_def Let_def)

lemma jump_frame2:
  "Player_update (1 / 10) noInput None (jumpState (127 / 100) (67 / 10) True (3 / 20) (3 / 5)) =
     Some (jumpState (44 / 25) (49 / 10) True (1 / 20) (127 / 100))"
  using getTerrainHeight_lower [of 0 0]
  by (simp add: player_defs example_defs jumpState_def Let_def)

lemma jump_frame3:
  "Player_update (1 / 10) noInput None (jumpState (44 / 25) (49 / 10) True (1 / 20) (127 / 100)) =
     Some (jumpState (207 / 100) (31 / 10) False (- (1 / 20)) (127 / 100))"
  using getTerrainHeight_lower [of 0 0]
  by (simp add: player_defs example_defs jumpState_def Let_def)

lemma jump_frame4:
  "Player_update (1 / 10) noInput None (jumpState (207 / 100) (31 / 10) False (- (1 / 20)) (127 / 100)) =
     Some (jumpState (11 / 5) (13 / 10) True (3 / 20) (207 / 100))"
  using getTerrainHeight_lower [of 0 0]
  by (simp add: player_defs example_defs jumpState_def Let_def)

lemma vlength_horizontal_pos: "0 < vlength (Vector3 a 0 b) \<longleftrightarrow> a \<noteq> 0 \<or> b \<noteq> 0"
  by (simp add: vlength_def sum_squares_gt_zero_iff)

lemma updateMovement_None_iff:
  "updateMovement dt i c p = None \<longleftrightarrow> dt = 0 \<and> (movement_x i \<noteq> 0 \<or> movement_z i \<noteq> 0)"
  by (simp add: updateMovement_def Let_def vlength_horizontal_pos)

lemma updateMovement_flags:
  "updateMovement dt i c p = Some q \<Longrightarrow>
     isGrounded q = isGrounded p \<and> punchActive q = punchActive p \<and> punchTimer q = punchTimer p \<and>
     isKnockedBack q = isKnockedBack p \<and> knockbackTimer q = knockbackTimer p \<and>
     punchSphere q = punchSphere p"
  by (auto simp: updateMovement_def constrainToStage_def Let_def split: if_splits)

lemma activates_iff:
  "activatesInFrame f p \<longleftrightarrow>
     \<not> isKnockedBack p \<and>
     \<not> (frame_dt f = 0 \<and> (movement_x (frame_input f) \<noteq> 0 \<or> movement_z (frame_input f) \<noteq> 0)) \<and>
     (\<not> isGrounded p \<or> jumpPressed (frame_input f)) \<and> \<not> punchActive p"
proof (cases "updateMovement (frame_dt f) (frame_input f) (frame_camera f) p")
  case None
  then show ?thesis
    using updateMovement_None_iff [of "frame_dt f" "frame_input f" "frame_camera f" p]
    by (simp add: activatesInFrame_def)
next
  case (Some q)
  then show ?thesis
    using updateMovement_None_iff [of "frame_dt f" "frame_input f" "frame_camera f" p]
      updateMovement_flags [OF Some]
    by (auto simp: activatesInFrame_def punchActivates_def updateJump_def)
qed

lemma updatePhysics_fields:
  "isKnockedBack (updatePhysics dt p) = isKnockedBack p"
  "knockbackTimer (updatePhysics dt p) = knockbackTimer p"
  "punchActive (updatePhysics dt p) = punchActive p"
  "punchTimer (updatePhysics dt p) = punchTimer p"
  "punchSphere (updatePhysics dt p) = punchSphere p"
  by (simp_all add: updatePhysics_def respawn_def Let_def)

lemma updateGroundCheck_fields:
  "isKnockedBack (updateGroundCheck p) = isKnockedBack p"
  "knockbackTimer (updateGroundCheck p) = knockbackTimer p"
  "punchActive (updateGroundCheck p) = punchActive p"
  "punchTimer (updateGroundCheck p) = punchTimer p"
  "punchSphere (updateGroundCheck p) = punchSphere p"
  "vecx (velocity (updateGroundCheck p)) = vecx (velocity p)"
  "vecz (velocity (updateGroundCheck p)) = vecz (velocity p)"
  by (simp_all add: updateGroundCheck_def setY_def Let_def)

lemma updateKnockback_timer: "knockbackTimer (updateKnockback dt p) = knockbackTimer p - dt"
  by (simp add: updateKnockback_def Let_def updatePhysics_fields updateGroundCheck_fields)

lemma updateKnockback_flag:
  "isKnockedBack (updateKnockback dt p) \<longleftrightarrow> isKnockedBack p \<and> 0 < knockbackTimer p - dt"
  by (auto simp: updateKnockback_def Let_def updatePhysics_fields updateGroundCheck_fields)

lemma Player_update_knocked:
  "isKnockedBack p \<Longrightarrow> Player_update dt i c p = Some (updateKnockback dt p)"
  by (simp add: Player_update_def)

lemma recovery_run:
  "isKnockedBack p \<Longrightarrow> recoveryCovers (map frame_dt fs) (knockbackTimer p) \<Longrightarrow>
   map frame_dt fs' = map frame_dt fs \<Longrightarrow>
   Player_run fs p = Player_run fs' p \<and> Player_run fs p \<noteq> None"
proof (induction fs arbitrary: fs' p)
  case Nil
  then show ?case by simp
next
  case (Cons f fs)
  from Cons.prems(3) obtain f' gs where fs': "fs' = f' # gs" and dt: "frame_dt f' = frame_dt f"
    and rest: "map frame_dt gs = map frame_dt fs"
    by (cases fs') auto
  let ?q = "updateKnockback (frame_dt f) p"
  show ?case
  proof (cases fs)
    case Nil
    with rest have "gs = []" by simp
    with Nil fs' dt Cons.prems(1) show ?thesis by (simp add: Player_update_knocked)
  next
    case (Cons g hs)
    with Cons.prems(2) have pos: "0 < knockbackTimer p - frame_dt f"
      and cov: "recoveryCovers (map frame_dt fs) (knockbackTimer p - frame_dt f)"
      by simp_all
    from pos Cons.prems(1) have k: "isKnockedBack ?q" by (simp add: updateKnockback_flag)
    from cov have "recoveryCovers (map frame_dt fs) (knockbackTimer ?q)"
      by (simp add: updateKnockback_timer)
    then have ih: "Player_run fs ?q = Player_run gs ?q" "Player_run fs ?q \<noteq> None"
      using Cons.IH [OF k _ rest] by blast+
    from fs' dt Cons.prems(1) have "Player_run (f # fs) p = Player_run fs ?q"
      "Player_run fs' p = Player_run gs ?q"
      by (simp_all add: Player_update_knocked)
    with ih show ?thesis by metis
  qed
qed

text \<open>
  C8. \<^verbatim>\<open>applyKnockback\<close> with direction (1,0,0) and force 5 sets the velocity to
  (5,3,0), so the upward component is the guaranteed minimum 3, clears the grounded flag,
  and enters recovery with the timer at the fixed duration 0.4. While the timer has not
  elapsed at the start of a frame, \<^verbatim>\<open>Player.update\<close> ignores the input and the camera
  direction: two runs of frames with the same frame times and any inputs end in the
  same player state (velocity included), and the run never leaves the real numbers.
\<close>

theorem applyKnockback_recovery:
  assumes "recoveryCovers (map frame_dt fs) knockbackDuration"
    and "map frame_dt fs' = map frame_dt fs"
  shows "velocity (applyKnockback (Vector3 1 0 0) 5 p) = Vector3 5 3 0 \<and>
         \<not> isGrounded (applyKnockback (Vector3 1 0 0) 5 p) \<and>
         isKnockedBack (applyKnockback (Vector3 1 0 0) 5 p) \<and>
         knockbackTimer (applyKnockback (Vector3 1 0 0) 5 p) = knockbackDuration \<and>
         Player_run fs (applyKnockback (Vector3 1 0 0) 5 p) =
           Player_run fs' (applyKnockback (Vector3 1 0 0) 5 p) \<and>
         Player_run fs (applyKnockback (Vector3 1 0 0) 5 p) \<noteq> None"
proof -
  let ?k = "applyKnockback (Vector3 1 0 0) 5 p"
  have v: "velocity ?k = Vector3 5 3 0"
    by (simp add: applyKnockback_def normalizeVector_def vlength_def multiplyScalar_def setY_def)
  have f: "\<not> isGrounded ?k" "isKnockedBack ?k" "knockbackTimer ?k = knockbackDuration"
    by (simp_all add: applyKnockback_def Let_def)
  from assms(1) f(3) have "recoveryCovers (map frame_dt fs) (knockbackTimer ?k)" by simp
  then have "Player_run fs ?k = Player_run fs' ?k" "Player_run fs ?k \<noteq> None"
    using recovery_run [OF f(2) _ assms(2)] by blast+
  with v f show ?thesis by blast
qed

theorem applyKnockback_recovery_witness:
  "recoveryCovers (map frame_dt pressedFrames) knockbackDuration \<and>
   map frame_dt idleFrames = map frame_dt pressedFrames \<and>
   velocity (applyKnockback (Vector3 1 0 0) 5 standing) = Vector3 5 3 0 \<and>
   isKnockedBack (applyKnockback (Vector3 1 0 0) 5 standing) \<and>
   Player_run pressedFrames (applyKnockback (Vector3 1 0 0) 5 standing) =
     Player_run idleFrames (applyKnockback (Vector3 1 0 0) 5 standing)"
proof -
  have a: "recoveryCovers (map frame_dt pressedFrames) knockbackDuration"
    by (simp add: pressedFrames_def frameOf_def knockbackDuration_def)
  have b: "map frame_dt idleFrames = map frame_dt pressedFrames"
    by (simp add: pressedFrames_def idleFrames_def frameOf_def)
  from applyKnockback_recovery [OF a b, of standing] a b show ?thesis by simp
qed

lemma updateJump_fields:
  "vecx (velocity (updateJump i p)) = vecx (velocity p)"
  "vecz (velocity (updateJump i p)) = vecz (velocity p)"
  "position (updateJump i p) = position p"
  "punchActive (updateJump i p) = punchActive p"
  "punchTimer (updateJump i p) = punchTimer p"
  "isGrounded (updateJump i p) \<longleftrightarrow> isGrounded p \<and> \<not> jumpPressed i"
  by (auto simp: updateJump_def setY_def)












text \<open>
  C3 fails on the code: the player stands at the east edge x = 4.5 and walks right for
  a frame of 0.1 s. \<^verbatim>\<open>updateMovement\<close> clamps the step to 4.5, then
  \<^verbatim>\<open>updatePhysics\<close> adds velocity times frame time to the whole position again,
  unclamped, and \<^verbatim>\<open>Player.update\<close> returns x = 4.9.
\<close>

theorem stage_bounds_overrun:
  "vecx (position atEastEdge) = 5 - 0.5 \<and>
   map_option (\<lambda>q. vecx (position q)) (Player_update (1 / 10) moveRight None atEastEdge) = Some (49 / 10) \<and>
   \<not> (49 / 10 \<le> (5 - 0.5 :: real))"
  using getTerrainHeight_lower [of "9/2" 0]
  by (simp add: player_defs example_defs Let_def)

lemma updatePunch_active:
  "punchActive (updatePunch dt c q) \<longleftrightarrow>
     \<not> isGrounded q \<and> (if punchActive q then 0 < punchTimer q - dt else 0 < punchDuration - dt)"
  by (auto simp: updatePunch_def punchActivates_def placePunchSphere_def Let_def)

lemma updatePunch_timer:
  "punchTimer (updatePunch dt c q) =
     (if punchActive q then punchTimer q - dt
      else if isGrounded q then punchTimer q else punchDuration - dt)"
  by (auto simp: updatePunch_def punchActivates_def placePunchSphere_def Let_def)

lemma updatePunch_sphere:
  "punchActive (updatePunch dt c q) \<Longrightarrow>
     punchSphere (updatePunch dt c q) =
       Sphere (vadd (position q) (multiplyScalar (punchDirection c) punchOffset)) punchRadius"
  by (auto simp: updatePunch_def punchActivates_def placePunchSphere_def Let_def split: if_splits)

lemma Player_update_free:
  assumes "\<not> isKnockedBack p" and "Player_update dt inp cam p = Some p'"
  obtains pm where "updateMovement dt inp cam p = Some pm"
    and "p' = updateGroundCheck (updatePhysics dt (updatePunch dt cam (updateJump inp pm)))"
  using assms by (auto simp: Player_update_def split: option.splits)

text \<open>
  C2, as the code has it. In a frame outside knockback recovery the punch is switched on
  exactly when, after the jump step, the player is airborne and the punch is inactive:
  then the timer is set to the punch duration and ticked once in the same frame. An
  active punch of an airborne player ticks by the frame time and stays active while the
  timer is positive; a frame that is grounded after the jump step ends with the punch
  inactive. So the punch is switched on again in the first airborne frame after it
  expired, and a long excursion activates it several times.
\<close>

theorem punch_frame:
  assumes "\<not> isKnockedBack p" and "Player_update dt inp cam p = Some p'"
  shows "(activatesInFrame \<lparr>frame_dt = dt, frame_input = inp, frame_camera = cam\<rparr> p \<longleftrightarrow>
            (\<not> isGrounded p \<or> jumpPressed inp) \<and> \<not> punchActive p) \<and>
         (isGrounded p \<and> \<not> jumpPressed inp \<longrightarrow> \<not> punchActive p') \<and>
         ((\<not> isGrounded p \<or> jumpPressed inp) \<and> \<not> punchActive p \<longrightarrow>
            punchTimer p' = punchDuration - dt \<and> (punchActive p' \<longleftrightarrow> 0 < punchDuration - dt)) \<and>
         ((\<not> isGrounded p \<or> jumpPressed inp) \<and> punchActive p \<longrightarrow>
            punchTimer p' = punchTimer p - dt \<and> (punchActive p' \<longleftrightarrow> 0 < punchTimer p - dt))"
proof -
  from assms obtain pm where pm: "updateMovement dt inp cam p = Some pm"
    and p': "p' = updateGroundCheck (updatePhysics dt (updatePunch dt cam (updateJump inp pm)))"
    by (rule Player_update_free)
  note fl = updateMovement_flags [OF pm]
  let ?q = "updateJump inp pm"
  have q: "isGrounded ?q \<longleftrightarrow> isGrounded p \<and> \<not> jumpPressed inp"
    "punchActive ?q = punchActive p" "punchTimer ?q = punchTimer p"
    by (simp_all add: updateJump_fields fl)
  have a: "punchActive p' = punchActive (updatePunch dt cam ?q)"
    and t: "punchTimer p' = punchTimer (updatePunch dt cam ?q)"
    by (simp_all add: p' updateGroundCheck_fields updatePhysics_fields)
  have nn: "\<not> (dt = 0 \<and> (movement_x inp \<noteq> 0 \<or> movement_z inp \<noteq> 0))"
    using pm updateMovement_None_iff [of dt inp cam p] by auto
  have act: "activatesInFrame \<lparr>frame_dt = dt, frame_input = inp, frame_camera = cam\<rparr> p \<longleftrightarrow>
      (\<not> isGrounded p \<or> jumpPressed inp) \<and> \<not> punchActive p"
    using assms(1) nn by (simp add: activates_iff)
  show ?thesis
    using act by (auto simp: a t updatePunch_active updatePunch_timer q)
qed

theorem punch_frame_witness:
  "\<not> isKnockedBack standing \<and>
   Player_update (1 / 10) jumpInput None standing =
     Some (jumpState (127 / 100) (67 / 10) True (3 / 20) (3 / 5)) \<and>
   activatesInFrame (frameOf (1 / 10) jumpInput) standing \<and>
   punchTimer (jumpState (127 / 100) (67 / 10) True (3 / 20) (3 / 5)) = punchDuration - 1 / 10 \<and>
   punchActive (jumpState (127 / 100) (67 / 10) True (3 / 20) (3 / 5))"
proof -
  have k: "\<not> isKnockedBack standing" by (simp add: example_defs)
  have g: "isGrounded standing" "\<not> punchActive standing" "jumpPressed jumpInput"
    by (simp_all add: example_defs)
  from punch_frame [OF k jump_frame1] g k jump_frame1 show ?thesis
    by (simp add: frameOf_def punchDuration_def)
qed

text \<open>
  C2 as stated fails: the player jumps and stays in the air for four frames of 0.1 s;
  the punch is switched on in the first frame, expires in the third, and is switched on
  again in the fourth: two activations within one airborne excursion.
\<close>

theorem punch_once_counterexample:
  "isGrounded standing \<and> airborneRun jumpFrames standing \<and> punchActivations jumpFrames standing = 2"
proof -
  have g: "isGrounded standing" "\<not> isKnockedBack standing" "\<not> punchActive standing"
    by (simp_all add: example_defs)
  have i: "jumpPressed jumpInput" "\<not> jumpPressed noInput" by (simp_all add: example_defs)
  have s: "\<And>h v a t sh. \<not> isGrounded (jumpState h v a t sh)"
    "\<And>h v a t sh. \<not> isKnockedBack (jumpState h v a t sh)"
    "\<And>h v a t sh. punchActive (jumpState h v a t sh) = a"
    by (simp_all add: jumpState_def)
  show ?thesis
    by (simp add: jumpFrames_def frameOf_def jump_frame1 jump_frame2 jump_frame3 jump_frame4
        activates_iff g i s)
qed

text \<open>
  C10, as the code has it. After a frame outside knockback recovery that ends with the
  punch active, the punch sphere has radius 0.6 and its centre is the position the player
  had when \<^verbatim>\<open>updatePunch\<close> ran (after the clamped horizontal step of
  \<^verbatim>\<open>updateMovement\<close>, before \<^verbatim>\<open>updatePhysics\<close> moves the player) plus 0.7
  times the aim; the aim is (0,0,-1) without a camera direction, else the normalised
  horizontal projection of the camera direction, and does not read the movement intent or
  the player's \<^verbatim>\<open>direction\<close> field.
\<close>

theorem punchSphere_aim:
  assumes "\<not> isKnockedBack p" and "Player_update dt inp cam p = Some p'" and "punchActive p'"
  shows "map_option
           (\<lambda>pm. Sphere (vadd (position pm) (multiplyScalar (punchDirection cam) punchOffset))
                    punchRadius)
           (updateMovement dt inp cam p) = Some (punchSphere p') \<and>
         punchDirection None = Vector3 0 0 (- 1) \<and>
         (\<forall>c. punchDirection (Some c) = normalizeVector (setY (normalizeVector c) 0)) \<and>
         punchOffset = 0.7 \<and> punchRadius = 0.6"
proof -
  from assms(1,2) obtain pm where pm: "updateMovement dt inp cam p = Some pm"
    and p': "p' = updateGroundCheck (updatePhysics dt (updatePunch dt cam (updateJump inp pm)))"
    by (rule Player_update_free)
  let ?q = "updateJump inp pm"
  from assms(3) have "punchActive (updatePunch dt cam ?q)"
    by (simp add: p' updateGroundCheck_fields updatePhysics_fields)
  from updatePunch_sphere [OF this]
  have "punchSphere p' =
      Sphere (vadd (position pm) (multiplyScalar (punchDirection cam) punchOffset)) punchRadius"
    by (simp add: p' updateGroundCheck_fields updatePhysics_fields updateJump_fields)
  with pm show ?thesis
    by (simp add: punchDirection_def punchOffset_def punchRadius_def)
qed

theorem punchSphere_aim_witness:
  "\<not> isKnockedBack standing \<and>
   Player_update (1 / 10) jumpInput None standing =
     Some (jumpState (127 / 100) (67 / 10) True (3 / 20) (3 / 5)) \<and>
   punchActive (jumpState (127 / 100) (67 / 10) True (3 / 20) (3 / 5)) \<and>
   map_option
     (\<lambda>pm. Sphere (vadd (position pm) (multiplyScalar (punchDirection None) punchOffset))
              punchRadius)
     (updateMovement (1 / 10) jumpInput None standing) =
     Some (punchSphere (jumpState (127 / 100) (67 / 10) True (3 / 20) (3 / 5)))"
proof -
  have k: "\<not> isKnockedBack standing" by (simp add: example_defs)
  have a: "punchActive (jumpState (127 / 100) (67 / 10) True (3 / 20) (3 / 5))"
    by (simp add: jumpState_def)
  from punchSphere_aim [OF k jump_frame1 a, THEN conjunct1] k a jump_frame1 show ?thesis by simp
qed

text \<open>
  C10 as stated fails for the position the player has when the sphere is read: after the
  jump frame the punch is active, the player has risen by 0.67, and the sphere's centre
  is still at the height the player had before the physics step.
\<close>

theorem punchSphere_counterexample:
  "Player_update (1 / 10) jumpInput None standing =
     Some (jumpState (127 / 100) (67 / 10) True (3 / 20) (3 / 5)) \<and>
   punchActive (jumpState (127 / 100) (67 / 10) True (3 / 20) (3 / 5)) \<and>
   center (punchSphere (jumpState (127 / 100) (67 / 10) True (3 / 20) (3 / 5))) \<noteq>
     vadd (position (jumpState (127 / 100) (67 / 10) True (3 / 20) (3 / 5)))
       (multiplyScalar (Vector3 0 0 (- 1)) punchOffset)"
  by (simp add: jump_frame1 jumpState_def vadd_def multiplyScalar_def punchOffset_def)

section \<open>Properties of the hazard spawner\<close>

lemma cleanupMeteors_length: "length (meteors (cleanupMeteors s)) \<le> length (meteors s)"
proof -
  have "length (filter snd (map (Meteor_update 0) (meteors s))) \<le> length (map (Meteor_update 0) (meteors s))"
    by (rule length_filter_le)
  then show ?thesis by (simp add: cleanupMeteors_def)
qed

lemma cleanupMeteors_fields:
  "spawnTimer (cleanupMeteors s) = spawnTimer s"
  by (simp add: cleanupMeteors_def)

lemma updateMeteors_fields:
  "length (meteors (updateMeteors dt s)) = length (meteors s)"
  "spawnTimer (updateMeteors dt s) = spawnTimer s"
  by (simp_all add: updateMeteors_def)

lemma trySpawnMeteor_cap:
  "length (meteors s) \<le> maxSimultaneousMeteors \<Longrightarrow>
     length (meteors (fst (trySpawnMeteor s r))) \<le> maxSimultaneousMeteors"
  by (auto simp: trySpawnMeteor_def addRecentTarget_def Let_def split: prod.splits)

lemma trySpawnMeteor_at_cap:
  "length (meteors s) \<ge> maxSimultaneousMeteors \<Longrightarrow> trySpawnMeteor s r = (s, r)"
  by (simp add: trySpawnMeteor_def)

lemma MeteorSpawner_update_cap:
  assumes "length (meteors s) \<le> maxSimultaneousMeteors"
  shows "length (meteors (fst (MeteorSpawner_update dt s r))) \<le> maxSimultaneousMeteors"
proof -
  let ?s1 = "advanceTimers dt s"
  have s1: "length (meteors ?s1) \<le> maxSimultaneousMeteors"
    using assms by (simp add: advanceTimers_def)
  obtain s' r' where sp: "trySpawnMeteor ?s1 r = (s', r')" by (cases "trySpawnMeteor ?s1 r")
  with trySpawnMeteor_cap [OF s1, of r] have s': "length (meteors s') \<le> maxSimultaneousMeteors"
    by simp
  define s2 where "s2 = (if cadenceFires ?s1 then s'\<lparr>spawnTimer := 0\<rparr> else ?s1)"
  have s2: "length (meteors s2) \<le> maxSimultaneousMeteors"
    using s1 s' by (simp add: s2_def)
  have "fst (MeteorSpawner_update dt s r) = cleanupMeteors (updateMeteors dt s2)"
    by (simp add: MeteorSpawner_update_def Let_def sp s2_def)
  then have "length (meteors (fst (MeteorSpawner_update dt s r))) \<le> length (meteors s2)"
    using cleanupMeteors_length [of "updateMeteors dt s2"] by (simp add: updateMeteors_fields)
  with s2 show ?thesis by simp
qed

lemma spawner_step_cap:
  "length (meteors s) \<le> maxSimultaneousMeteors \<Longrightarrow>
     length (meteors (spawner_step op s)) \<le> maxSimultaneousMeteors"
  by (cases op)
    (simp_all add: MeteorSpawner_update_cap setFrequencyMultiplier_def setMeteorSpeed_def
      MeteorSpawner_reset_def)

lemma spawner_run_cap:
  "length (meteors s) \<le> maxSimultaneousMeteors \<Longrightarrow>
     length (meteors (spawner_run ops s)) \<le> maxSimultaneousMeteors"
  by (induction ops arbitrary: s) (simp_all add: spawner_step_cap)

text \<open>
  C5. The spawner never holds more than the cap of 8 hazards: the bound holds after any
  sequence of frames, tuning calls, resets and melee destructions, from the constructor's
  state and from any state within the cap, whatever the difficulty phases, spawn
  intervals and frequency multiplier are. When the cadence fires while the count is at
  the cap, the update is the update without a spawn (no hazard is added and no random
  number is drawn), and the cadence accumulator is reset to zero.
\<close>

theorem spawner_cap:
  "maxSimultaneousMeteors = 8 \<and>
   length (meteors (spawner_run ops MeteorSpawner_new)) \<le> maxSimultaneousMeteors \<and>
   (length (meteors s) \<le> maxSimultaneousMeteors \<longrightarrow>
      length (meteors (spawner_run ops s)) \<le> maxSimultaneousMeteors) \<and>
   (cadenceFires (advanceTimers dt s) \<and> length (meteors s) = maxSimultaneousMeteors \<longrightarrow>
      MeteorSpawner_update dt s r =
        (cleanupMeteors (updateMeteors dt ((advanceTimers dt s)\<lparr>spawnTimer := 0\<rparr>)), r) \<and>
      spawnTimer (fst (MeteorSpawner_update dt s r)) = 0 \<and>
      length (meteors (fst (MeteorSpawner_update dt s r))) \<le> length (meteors s))"
proof (intro conjI impI)
  show "maxSimultaneousMeteors = 8" by (simp add: maxSimultaneousMeteors_def)
  show "length (meteors (spawner_run ops MeteorSpawner_new)) \<le> maxSimultaneousMeteors"
    by (rule spawner_run_cap) (simp add: MeteorSpawner_new_def)
next
  assume "length (meteors s) \<le> maxSimultaneousMeteors"
  then show "length (meteors (spawner_run ops s)) \<le> maxSimultaneousMeteors"
    by (rule spawner_run_cap)
next
  assume a: "cadenceFires (advanceTimers dt s) \<and> length (meteors s) = maxSimultaneousMeteors"
  then have full: "length (meteors (advanceTimers dt s)) \<ge> maxSimultaneousMeteors"
    by (simp add: advanceTimers_def)
  from a show eq: "MeteorSpawner_update dt s r =
      (cleanupMeteors (updateMeteors dt ((advanceTimers dt s)\<lparr>spawnTimer := 0\<rparr>)), r)"
    by (simp add: MeteorSpawner_update_def Let_def trySpawnMeteor_at_cap [OF full])
  show "spawnTimer (fst (MeteorSpawner_update dt s r)) = 0"
    by (simp add: eq cleanupMeteors_fields updateMeteors_fields)
  show "length (meteors (fst (MeteorSpawner_update dt s r))) \<le> length (meteors s)"
    using cleanupMeteors_length [of "updateMeteors dt ((advanceTimers dt s)\<lparr>spawnTimer := 0\<rparr>)"]
    by (simp add: eq updateMeteors_fields advanceTimers_def)
qed

lemma fullSpawner_fires: "cadenceFires (advanceTimers (1 / 10) fullSpawner)"
  by (simp add: cadenceFires_def advanceTimers_def fullSpawner_def MeteorSpawner_new_def
      getCurrentDifficultyPhase_def)

lemma fullSpawner_full: "length (meteors fullSpawner) = maxSimultaneousMeteors"
  by (simp add: fullSpawner_def maxSimultaneousMeteors_def)

theorem spawner_cap_witness:
  "cadenceFires (advanceTimers (1 / 10) fullSpawner) \<and>
   length (meteors fullSpawner) = maxSimultaneousMeteors \<and>
   length (meteors (spawner_run [Frame (1 / 10) halves, SetFrequencyMultiplier 0, Frame (1 / 10) halves]
      fullSpawner)) \<le> maxSimultaneousMeteors \<and>
   spawnTimer (fst (MeteorSpawner_update (1 / 10) fullSpawner halves)) = 0 \<and>
   snd (MeteorSpawner_update (1 / 10) fullSpawner halves) = halves \<and>
   length (meteors (fst (MeteorSpawner_update (1 / 10) fullSpawner halves))) = 8"
proof -
  note t = spawner_cap [of "[Frame (1 / 10) halves, SetFrequencyMultiplier 0, Frame (1 / 10) halves]"
      fullSpawner "1 / 10" halves]
  have le: "length (meteors fullSpawner) \<le> maxSimultaneousMeteors"
    using fullSpawner_full by simp
  from t le have run: "length (meteors (spawner_run
      [Frame (1 / 10) halves, SetFrequencyMultiplier 0, Frame (1 / 10) halves] fullSpawner))
      \<le> maxSimultaneousMeteors"
    by blast
  from t fullSpawner_fires fullSpawner_full
  have eq: "MeteorSpawner_update (1 / 10) fullSpawner halves =
      (cleanupMeteors (updateMeteors (1 / 10) ((advanceTimers (1 / 10) fullSpawner)\<lparr>spawnTimer := 0\<rparr>)),
       halves)"
    and tm: "spawnTimer (fst (MeteorSpawner_update (1 / 10) fullSpawner halves)) = 0"
    by blast+
  have l: "length (meteors (fst (MeteorSpawner_update (1 / 10) fullSpawner halves))) = 8"
    unfolding eq
    by (simp add: cleanupMeteors_def updateMeteors_def advanceTimers_def fullSpawner_def
        MeteorSpawner_new_def Meteor_update_def Meteor_new_def updateTelegraph_def
        telegraphDuration_def Let_def)
  have sn: "snd (MeteorSpawner_update (1 / 10) fullSpawner halves) = halves"
    by (simp add: eq)
  from fullSpawner_fires fullSpawner_full run tm sn l show ?thesis by blast
qed

text \<open>
  C1 fails on the code: a falling hazard reaches the terrain in the lifecycle pass of
  \<^verbatim>\<open>MeteorSpawner.update\<close> and becomes Exploded; \<^verbatim>\<open>cleanupMeteors\<close>, in the same
  call, evaluates it once more and removes it, so the list that the frame's collision
  resolution receives from \<^verbatim>\<open>getMeteors\<close> no longer holds it.
\<close>

theorem exploded_purged_before_collision:
  "map state (meteors (updateMeteors (1 / 5) (advanceTimers (1 / 5) fallingSpawner))) = [Exploded] \<and>
   getMeteors (fst (MeteorSpawner_update (1 / 5) fallingSpawner halves)) = []"
  using getTerrainHeight_lower [of 0 0]
  by (simp add: MeteorSpawner_update_def cadenceFires_def advanceTimers_def fallingSpawner_def
      MeteorSpawner_new_def getCurrentDifficultyPhase_def updateMeteors_def cleanupMeteors_def
      Meteor_update_def updateFalling_def lowMeteor_def explode_def vadd_def multiplyScalar_def
      meteorRadius_def getMeteors_def Let_def)

section \<open>Properties of the session\<close>

lemma isCreatureHit_simps:
  "isCreatureHit (punch_hit_meteor a b) = False"
  "isCreatureHit (meteor_explosion a b c) = False"
  "isCreatureHit (meteor_hit_player a b d e) = False"
  "isCreatureHit (meteor_hit_creature a f b e) = True"
  by (simp_all add: isCreatureHit_def)

text \<open>Creature updates never change the alive flag; the collision passes only clear it,
  and push a creature-hit event whenever they do.\<close>

lemma Creature_generateRandomTarget_alive:
  "isAlive (fst (Creature_generateRandomTarget c r)) = isAlive c"
  by (simp add: Creature_generateRandomTarget_def Let_def)

lemma updateWalkingBehavior_alive: "isAlive (fst (updateWalkingBehavior dt c r)) = isAlive c"
  by (simp add: updateWalkingBehavior_def Creature_generateRandomTarget_def Let_def split: prod.splits)

lemma updateBehavior_alive: "isAlive (fst (updateBehavior dt ps c r)) = isAlive c"
  by (auto simp: updateBehavior_def calculateFleeTarget_def constrainTargetToStage_def Let_def
      updateWalkingBehavior_alive Creature_generateRandomTarget_def
      split: option.splits prod.splits)

lemma Creature_update_alive: "isAlive (fst (Creature_update dt ps c r)) = isAlive c"
proof (cases "isAlive c")
  case False
  then show ?thesis by (simp add: Creature_update_def)
next
  case True
  obtain c1 r1 where u: "updateBehavior dt ps c r = (c1, r1)" by (cases "updateBehavior dt ps c r")
  with updateBehavior_alive [of dt ps c r] have "isAlive c1 = isAlive c" by simp
  with True u show ?thesis
    by (simp add: Creature_update_def updatePosition_def Creature_updateMovement_def Let_def)
qed

lemma updateCreatures_alive: "map isAlive (fst (updateCreatures dt ps cs r)) = map isAlive cs"
proof (induction cs arbitrary: r)
  case Nil
  then show ?case by simp
next
  case (Cons c cs)
  obtain c' r1 where u: "Creature_update dt ps c r = (c', r1)" by (cases "Creature_update dt ps c r")
  obtain cs' r2 where v: "updateCreatures dt ps cs r1 = (cs', r2)"
    by (cases "updateCreatures dt ps cs r1")
  from Creature_update_alive [of dt ps c r] u have "isAlive c' = isAlive c" by simp
  moreover from Cons.IH [of r1] v have "map isAlive cs' = map isAlive cs" by simp
  ultimately show ?case using u v by simp
qed

lemma hitCreatures_alive:
  "hitCreatures sp mi d j cs = (cs', es) \<Longrightarrow>
     (list_all isCreatureHit es) \<and> (es = [] \<longrightarrow> cs' = cs) \<and> length cs' = length cs"
proof (induction cs arbitrary: j cs' es)
  case Nil
  then show ?case by simp
next
  case (Cons c cs)
  obtain rest' events where r: "hitCreatures sp mi d (Suc j) cs = (rest', events)"
    by (cases "hitCreatures sp mi d (Suc j) cs")
  from Cons.IH [OF r] Cons.prems r show ?case
    by (auto simp: isCreatureHit_simps split: if_splits)
qed

lemma explosions_alive:
  "checkMeteorExplosions_loop i ms p cs = (p', cs', es) \<Longrightarrow>
     \<not> list_ex isCreatureHit es \<Longrightarrow> cs' = cs"
proof (induction ms arbitrary: i p cs p' cs' es)
  case Nil
  then show ?case by simp
next
  case (Cons m ms)
  show ?case
  proof (cases "isExploded m")
    case False
    with Cons show ?thesis by simp
  next
    case True
    obtain cs1 ce where h: "hitCreatures (getExplosionSphere m) i False 0 cs = (cs1, ce)"
      by (cases "hitCreatures (getExplosionSphere m) i False 0 cs")
    define p1 where "p1 = (if sphereIntersectsSphere (getExplosionSphere m) (Player_getBoundingSphere p)
       then applyKnockback (normalizeVector (vsub (position p) (targetPosition m))) 8 p else p)"
    obtain p2 cs2 evs where l: "checkMeteorExplosions_loop (Suc i) ms p1 cs1 = (p2, cs2, evs)"
      by (cases "checkMeteorExplosions_loop (Suc i) ms p1 cs1")
    have "\<exists>pe. checkMeteorExplosions_loop i (m # ms) p cs = (p2, cs2, ce @ pe @ evs)"
      using True h l
      by (cases "sphereIntersectsSphere (getExplosionSphere m) (Player_getBoundingSphere p)")
        (simp_all add: Let_def p1_def)
    with Cons.prems(1) obtain pe where cs': "cs' = cs2" and ese: "es = ce @ pe @ evs" by auto
    then have es: "set ce \<subseteq> set es" "set evs \<subseteq> set es" by auto
    from es Cons.prems(2) have n1: "\<not> list_ex isCreatureHit ce" and n2: "\<not> list_ex isCreatureHit evs"
      by (auto simp: list_ex_iff)
    from hitCreatures_alive [OF h] n1 have "cs1 = cs"
      by (cases ce) (auto simp: list_ex_iff)
    moreover from Cons.IH [OF l n2] have "cs2 = cs1" .
    ultimately show ?thesis using cs' by simp
  qed
qed

lemma directHits_alive:
  "checkDirectMeteorHits_loop i ms p cs = (p', cs', es) \<Longrightarrow>
     \<not> list_ex isCreatureHit es \<Longrightarrow> cs' = cs"
proof (induction ms arbitrary: i p cs p' cs' es)
  case Nil
  then show ?case by simp
next
  case (Cons m ms)
  show ?case
  proof (cases "state m = Falling")
    case False
    with Cons show ?thesis by simp
  next
    case True
    obtain cs1 ce where h: "hitCreatures (Meteor_getBoundingSphere m) i True 0 cs = (cs1, ce)"
      by (cases "hitCreatures (Meteor_getBoundingSphere m) i True 0 cs")
    define p1 where "p1 = (if sphereIntersectsSphere (Meteor_getBoundingSphere m) (Player_getBoundingSphere p)
       then applyKnockback (normalizeVector (vsub (position p) (meteor_position m))) 10 p else p)"
    obtain p2 cs2 evs where l: "checkDirectMeteorHits_loop (Suc i) ms p1 cs1 = (p2, cs2, evs)"
      by (cases "checkDirectMeteorHits_loop (Suc i) ms p1 cs1")
    have "\<exists>pe. checkDirectMeteorHits_loop i (m # ms) p cs = (p2, cs2, ce @ pe @ evs)"
      using True h l
      by (cases "sphereIntersectsSphere (Meteor_getBoundingSphere m) (Player_getBoundingSphere p)")
        (simp_all add: Let_def p1_def)
    with Cons.prems(1) obtain pe where cs': "cs' = cs2" and ese: "es = ce @ pe @ evs" by auto
    then have es: "set ce \<subseteq> set es" "set evs \<subseteq> set es" by auto
    from es Cons.prems(2) have n1: "\<not> list_ex isCreatureHit ce" and n2: "\<not> list_ex isCreatureHit evs"
      by (auto simp: list_ex_iff)
    from hitCreatures_alive [OF h] n1 have "cs1 = cs"
      by (cases ce) (auto simp: list_ex_iff)
    moreover from Cons.IH [OF l n2] have "cs2 = cs1" .
    ultimately show ?thesis using cs' by simp
  qed
qed

lemma CollisionSystem_update_alive:
  assumes "CollisionSystem_update p cs ms = (p', cs', ms', es)" and "\<not> list_ex isCreatureHit es"
  shows "cs' = cs"
proof -
  obtain ms1 pe where a: "checkPunchVsMeteors p ms = (ms1, pe)" by (cases "checkPunchVsMeteors p ms")
  obtain p1 cs1 ee where b: "checkMeteorExplosions_loop 0 ms1 p cs = (p1, cs1, ee)"
    by (cases "checkMeteorExplosions_loop 0 ms1 p cs")
  obtain p2 cs2 de where c: "checkDirectMeteorHits_loop 0 ms1 p1 cs1 = (p2, cs2, de)"
    by (cases "checkDirectMeteorHits_loop 0 ms1 p1 cs1")
  from assms(1) a b c have cs': "cs' = cs2" and es: "es = pe @ ee @ de"
    by (simp_all add: CollisionSystem_update_def checkMeteorExplosions_def checkDirectMeteorHits_def)
  from es assms(2) have "\<not> list_ex isCreatureHit ee" "\<not> list_ex isCreatureHit de"
    by (auto simp: list_ex_iff)
  with explosions_alive [OF b] directHits_alive [OF c] cs' show ?thesis by simp
qed

lemma handle_fold:
  "creatures (foldl (\<lambda>g' event. handleCollisionEvent event g') g es) = creatures g \<and>
   aliveCreatures (foldl (\<lambda>g' event. handleCollisionEvent event g') g es) =
     (if list_ex isCreatureHit es then int (length (filter isAlive (creatures g)))
      else aliveCreatures g)"
proof (induction es arbitrary: g)
  case Nil
  then show ?case by simp
next
  case (Cons e es)
  have c: "creatures (handleCollisionEvent e g) = creatures g"
    by (cases e) (simp_all add: handleCollisionEvent_def)
  have a: "aliveCreatures (handleCollisionEvent e g) =
      (if isCreatureHit e then int (length (filter isAlive (creatures g))) else aliveCreatures g)"
    by (cases e) (simp_all add: handleCollisionEvent_def isCreatureHit_simps)
  from Cons.IH [of "handleCollisionEvent e g"] c a show ?case by simp
qed

lemma filter_alive_cong: "map isAlive xs = map isAlive ys \<Longrightarrow> length (filter isAlive xs) = length (filter isAlive ys)"
proof -
  assume "map isAlive xs = map isAlive ys"
  then have "length (filter id (map isAlive xs)) = length (filter id (map isAlive ys))" by simp
  then show ?thesis by (simp add: filter_map comp_def)
qed

lemma updateGameEntities_unfold:
  assumes p1: "Player_update dt (inputState g) (Some (cameraForward g)) (player g) = Some p1"
    and u: "updateCreatures dt (getTelegraphPositions (meteorSpawner g)) (creatures g) (random g) = (cs1, r1)"
    and s: "MeteorSpawner_update dt (meteorSpawner g) r1 = (sp1, r2)"
    and c: "CollisionSystem_update p1 cs1 (getMeteors sp1) = (p2, cs2, ms2, es)"
  shows "updateGameEntities dt g =
      Some (foldl (\<lambda>g' event. handleCollisionEvent event g')
        (g\<lparr>player := p2, creatures := cs2, meteorSpawner := sp1\<lparr>meteors := ms2\<rparr>, random := r2\<rparr>) es)"
  unfolding updateGameEntities_def Let_def p1 option.case u prod.case s c ..

lemma updateGameEntities_None:
  "updateGameEntities dt g = None \<longleftrightarrow>
     Player_update dt (inputState g) (Some (cameraForward g)) (player g) = None"
proof (cases "Player_update dt (inputState g) (Some (cameraForward g)) (player g)")
  case None
  then show ?thesis unfolding updateGameEntities_def by simp
next
  case (Some p1)
  obtain cs1 r1 where u: "updateCreatures dt (getTelegraphPositions (meteorSpawner g)) (creatures g) (random g) = (cs1, r1)"
    by (cases "updateCreatures dt (getTelegraphPositions (meteorSpawner g)) (creatures g) (random g)")
  obtain sp1 r2 where s: "MeteorSpawner_update dt (meteorSpawner g) r1 = (sp1, r2)"
    by (cases "MeteorSpawner_update dt (meteorSpawner g) r1")
  obtain p2 cs2 ms2 es where c: "CollisionSystem_update p1 cs1 (getMeteors sp1) = (p2, cs2, ms2, es)"
    using prod_cases4 by blast
  from updateGameEntities_unfold [OF Some u s c] Some show ?thesis by simp
qed


lemma updateGameEntities_cases:
  assumes "updateGameEntities dt g = Some g'"
  obtains p1 cs1 r1 sp1 r2 p2 cs2 ms2 es where
    "Player_update dt (inputState g) (Some (cameraForward g)) (player g) = Some p1"
    "updateCreatures dt (getTelegraphPositions (meteorSpawner g)) (creatures g) (random g) = (cs1, r1)"
    "MeteorSpawner_update dt (meteorSpawner g) r1 = (sp1, r2)"
    "CollisionSystem_update p1 cs1 (getMeteors sp1) = (p2, cs2, ms2, es)"
    "g' = foldl (\<lambda>g' event. handleCollisionEvent event g')
        (g\<lparr>player := p2, creatures := cs2, meteorSpawner := sp1\<lparr>meteors := ms2\<rparr>, random := r2\<rparr>) es"
proof -
  from assms updateGameEntities_None [of dt g] obtain p1 where
    p1: "Player_update dt (inputState g) (Some (cameraForward g)) (player g) = Some p1"
    by (cases "Player_update dt (inputState g) (Some (cameraForward g)) (player g)") auto
  obtain cs1 r1 where u: "updateCreatures dt (getTelegraphPositions (meteorSpawner g)) (creatures g) (random g) = (cs1, r1)"
    by (cases "updateCreatures dt (getTelegraphPositions (meteorSpawner g)) (creatures g) (random g)")
  obtain sp1 r2 where s: "MeteorSpawner_update dt (meteorSpawner g) r1 = (sp1, r2)"
    by (cases "MeteorSpawner_update dt (meteorSpawner g) r1")
  obtain p2 cs2 ms2 es where c: "CollisionSystem_update p1 cs1 (getMeteors sp1) = (p2, cs2, ms2, es)"
    using prod_cases4 by blast
  from updateGameEntities_unfold [OF p1 u s c] assms
  have "g' = foldl (\<lambda>g' event. handleCollisionEvent event g')
        (g\<lparr>player := p2, creatures := cs2, meteorSpawner := sp1\<lparr>meteors := ms2\<rparr>, random := r2\<rparr>) es"
    by simp
  with p1 u s c show thesis by (rule that)
qed

lemma updateGameEntities_consistent:
  assumes "sessionConsistent g" and "updateGameEntities dt g = Some g'"
  shows "sessionConsistent g'"
proof -
  from assms(2) obtain p1 cs1 r1 sp1 r2 p2 cs2 ms2 es where
    u: "updateCreatures dt (getTelegraphPositions (meteorSpawner g)) (creatures g) (random g) = (cs1, r1)"
    and c: "CollisionSystem_update p1 cs1 (getMeteors sp1) = (p2, cs2, ms2, es)"
    and g': "g' = foldl (\<lambda>g' event. handleCollisionEvent event g')
        (g\<lparr>player := p2, creatures := cs2, meteorSpawner := sp1\<lparr>meteors := ms2\<rparr>, random := r2\<rparr>) es"
    by (rule updateGameEntities_cases)
  define g1 where "g1 = g\<lparr>player := p2, creatures := cs2, meteorSpawner := sp1\<lparr>meteors := ms2\<rparr>, random := r2\<rparr>"
  have g1: "creatures g1 = cs2" "aliveCreatures g1 = aliveCreatures g" by (simp_all add: g1_def)
  have g'': "g' = foldl (\<lambda>g' event. handleCollisionEvent event g') g1 es"
    unfolding g1_def by (rule g')
  have cr: "creatures g' = cs2"
    unfolding g'' using handle_fold [of g1 es] g1 by simp
  have ac: "aliveCreatures g' =
     (if list_ex isCreatureHit es then int (length (filter isAlive cs2)) else aliveCreatures g)"
    unfolding g'' using handle_fold [of g1 es] g1 by simp
  from updateCreatures_alive [of dt "getTelegraphPositions (meteorSpawner g)" "creatures g" "random g"] u
  have al: "map isAlive cs1 = map isAlive (creatures g)" by simp
  show ?thesis
  proof (cases "list_ex isCreatureHit es")
    case True
    with cr ac show ?thesis by (simp add: sessionConsistent_def)
  next
    case False
    from CollisionSystem_update_alive [OF c False] have "cs2 = cs1" .
    with al have "map isAlive cs2 = map isAlive (creatures g)" by simp
    then have "length (filter isAlive cs2) = length (filter isAlive (creatures g))"
      by (rule filter_alive_cong)
    moreover from assms(1) have "aliveCreatures g = int (length (filter isAlive (creatures g)))"
      by (simp add: sessionConsistent_def)
    ultimately show ?thesis using False cr ac by (simp add: sessionConsistent_def)
  qed
qed

lemma hitCreatures_mono:
  "hitCreatures sp mi d j cs = (cs', es) \<Longrightarrow>
     length (filter isAlive cs') \<le> length (filter isAlive cs)"
proof (induction cs arbitrary: j cs' es)
  case Nil
  then show ?case by simp
next
  case (Cons c cs)
  obtain rest' events where r: "hitCreatures sp mi d (Suc j) cs = (rest', events)"
    by (cases "hitCreatures sp mi d (Suc j) cs")
  from Cons.IH [OF r] Cons.prems r show ?case
    by (auto simp: takeDamage_def split: if_splits)
qed

lemma explosions_mono:
  "checkMeteorExplosions_loop i ms p cs = (p', cs', es) \<Longrightarrow>
     length (filter isAlive cs') \<le> length (filter isAlive cs)"
proof (induction ms arbitrary: i p cs p' cs' es)
  case Nil
  then show ?case by simp
next
  case (Cons m ms)
  show ?case
  proof (cases "isExploded m")
    case False
    with Cons show ?thesis by simp
  next
    case True
    obtain cs1 ce where h: "hitCreatures (getExplosionSphere m) i False 0 cs = (cs1, ce)"
      by (cases "hitCreatures (getExplosionSphere m) i False 0 cs")
    define p1 where "p1 = (if sphereIntersectsSphere (getExplosionSphere m) (Player_getBoundingSphere p)
       then applyKnockback (normalizeVector (vsub (position p) (targetPosition m))) 8 p else p)"
    obtain p2 cs2 evs where l: "checkMeteorExplosions_loop (Suc i) ms p1 cs1 = (p2, cs2, evs)"
      by (cases "checkMeteorExplosions_loop (Suc i) ms p1 cs1")
    have "\<exists>pe. checkMeteorExplosions_loop i (m # ms) p cs = (p2, cs2, ce @ pe @ evs)"
      using True h l
      by (cases "sphereIntersectsSphere (getExplosionSphere m) (Player_getBoundingSphere p)")
        (simp_all add: Let_def p1_def)
    with Cons.prems have cs': "cs' = cs2" by auto
    from hitCreatures_mono [OF h] Cons.IH [OF l] cs' show ?thesis by simp
  qed
qed

lemma directHits_mono:
  "checkDirectMeteorHits_loop i ms p cs = (p', cs', es) \<Longrightarrow>
     length (filter isAlive cs') \<le> length (filter isAlive cs)"
proof (induction ms arbitrary: i p cs p' cs' es)
  case Nil
  then show ?case by simp
next
  case (Cons m ms)
  show ?case
  proof (cases "state m = Falling")
    case False
    with Cons show ?thesis by simp
  next
    case True
    obtain cs1 ce where h: "hitCreatures (Meteor_getBoundingSphere m) i True 0 cs = (cs1, ce)"
      by (cases "hitCreatures (Meteor_getBoundingSphere m) i True 0 cs")
    define p1 where "p1 = (if sphereIntersectsSphere (Meteor_getBoundingSphere m) (Player_getBoundingSphere p)
       then applyKnockback (normalizeVector (vsub (position p) (meteor_position m))) 10 p else p)"
    obtain p2 cs2 evs where l: "checkDirectMeteorHits_loop (Suc i) ms p1 cs1 = (p2, cs2, evs)"
      by (cases "checkDirectMeteorHits_loop (Suc i) ms p1 cs1")
    have "\<exists>pe. checkDirectMeteorHits_loop i (m # ms) p cs = (p2, cs2, ce @ pe @ evs)"
      using True h l
      by (cases "sphereIntersectsSphere (Meteor_getBoundingSphere m) (Player_getBoundingSphere p)")
        (simp_all add: Let_def p1_def)
    with Cons.prems have cs': "cs' = cs2" by auto
    from hitCreatures_mono [OF h] Cons.IH [OF l] cs' show ?thesis by simp
  qed
qed

lemma CollisionSystem_update_mono:
  assumes "CollisionSystem_update p cs ms = (p', cs', ms', es)"
  shows "length (filter isAlive cs') \<le> length (filter isAlive cs)"
proof -
  obtain ms1 pe where a: "checkPunchVsMeteors p ms = (ms1, pe)" by (cases "checkPunchVsMeteors p ms")
  obtain p1 cs1 ee where b: "checkMeteorExplosions_loop 0 ms1 p cs = (p1, cs1, ee)"
    by (cases "checkMeteorExplosions_loop 0 ms1 p cs")
  obtain p2 cs2 de where c: "checkDirectMeteorHits_loop 0 ms1 p1 cs1 = (p2, cs2, de)"
    by (cases "checkDirectMeteorHits_loop 0 ms1 p1 cs1")
  from assms a b c have cs': "cs' = cs2"
    by (simp add: CollisionSystem_update_def checkMeteorExplosions_def checkDirectMeteorHits_def)
  from explosions_mono [OF b] directHits_mono [OF c] cs' show ?thesis by simp
qed

lemma updateGameEntities_alive_mono:
  assumes "sessionConsistent g" and "updateGameEntities dt g = Some g'"
  shows "aliveCreatures g' \<le> aliveCreatures g"
proof -
  from assms(2) obtain p1 cs1 r1 sp1 r2 p2 cs2 ms2 es where
    u: "updateCreatures dt (getTelegraphPositions (meteorSpawner g)) (creatures g) (random g) = (cs1, r1)"
    and c: "CollisionSystem_update p1 cs1 (getMeteors sp1) = (p2, cs2, ms2, es)"
    and g': "g' = foldl (\<lambda>g' event. handleCollisionEvent event g')
        (g\<lparr>player := p2, creatures := cs2, meteorSpawner := sp1\<lparr>meteors := ms2\<rparr>, random := r2\<rparr>) es"
    by (rule updateGameEntities_cases)
  define g1 where "g1 = g\<lparr>player := p2, creatures := cs2, meteorSpawner := sp1\<lparr>meteors := ms2\<rparr>, random := r2\<rparr>"
  have g1: "creatures g1 = cs2" "aliveCreatures g1 = aliveCreatures g" by (simp_all add: g1_def)
  have g'': "g' = foldl (\<lambda>g' event. handleCollisionEvent event g') g1 es"
    unfolding g1_def by (rule g')
  have ac: "aliveCreatures g' =
     (if list_ex isCreatureHit es then int (length (filter isAlive cs2)) else aliveCreatures g)"
    unfolding g'' using handle_fold [of g1 es] g1 by simp
  from updateCreatures_alive [of dt "getTelegraphPositions (meteorSpawner g)" "creatures g" "random g"] u
  have "map isAlive cs1 = map isAlive (creatures g)" by simp
  then have "length (filter isAlive cs1) = length (filter isAlive (creatures g))"
    by (rule filter_alive_cong)
  with CollisionSystem_update_mono [OF c]
  have "int (length (filter isAlive cs2)) \<le> int (length (filter isAlive (creatures g)))" by simp
  moreover from assms(1) have "aliveCreatures g = int (length (filter isAlive (creatures g)))"
    by (simp add: sessionConsistent_def)
  ultimately show ?thesis using ac by simp
qed

lemma Player_update_None_iff:
  "Player_update dt i c p = None \<longleftrightarrow>
     \<not> isKnockedBack p \<and> dt = 0 \<and> (movement_x i \<noteq> 0 \<or> movement_z i \<noteq> 0)"
  using updateMovement_None_iff [of dt i c p]
  by (auto simp: Player_update_def split: option.splits)

lemma transition_to_Result:
  "currentState m = Play \<Longrightarrow> currentState (transitionTo Result m) = Result"
  by (simp add: transitionTo_def canTransitionTo_def)

lemma updateGame_eq:
  "updateGame dt m =
     map_option (\<lambda>g. checkGameConditions (m\<lparr>world := g\<rparr>))
       (updateGameEntities dt ((world m)\<lparr>gameTimer := gameTimer (world m) - dt\<rparr>))"
  by (simp add: updateGame_def Let_def split: option.splits)

lemma startGame_consistent: "sessionConsistent (startGame g)"
  by (simp add: startGame_def sessionConsistent_def createSpawnPositions_def Creature_new_def
      Creature_generateRandomTarget_def Let_def split: prod.splits)

text \<open>The session invariant holds in the constructor's state and after every step of a
  run.\<close>

lemma transitionTo_invariant:
  assumes "gameInvariant m"
  shows "gameInvariant (transitionTo t m)"
proof -
  from assms have h: "stateHandlers m = gameHandlers" and c: "sessionConsistent (world m)"
    by (simp_all add: gameInvariant_def)
  have ex: "gameInvariant (runOnExit m)"
    using h c
    by (cases "currentState m")
      (simp_all add: runOnExit_def gameHandlers_def gameInvariant_def sessionConsistent_def)
  have en: "\<And>m'. gameInvariant m' \<Longrightarrow> gameInvariant (runOnEnter (m'\<lparr>currentState := t\<rparr>))"
    using startGame_consistent
    by (cases t) (simp_all add: runOnEnter_def gameHandlers_def gameInvariant_def)
  from assms ex en [OF ex] show ?thesis by (simp add: transitionTo_def)
qed

lemma checkGameConditions_invariant:
  "gameInvariant m \<Longrightarrow> gameInvariant (checkGameConditions m)"
  by (simp add: checkGameConditions_def transitionTo_invariant)

lemma updateGame_invariant:
  assumes "gameInvariant m" and "updateGame dt m = Some m'"
  shows "gameInvariant m'"
proof -
  let ?g = "(world m)\<lparr>gameTimer := gameTimer (world m) - dt\<rparr>"
  from assms(2) obtain g' where g': "updateGameEntities dt ?g = Some g'"
    and m': "m' = checkGameConditions (m\<lparr>world := g'\<rparr>)"
    by (auto simp: updateGame_eq)
  from assms(1) have "sessionConsistent ?g" by (simp add: gameInvariant_def sessionConsistent_def)
  from updateGameEntities_consistent [OF this g'] assms(1)
  have "gameInvariant (m\<lparr>world := g'\<rparr>)" by (simp add: gameInvariant_def)
  then show ?thesis unfolding m' by (rule checkGameConditions_invariant)
qed

lemma StateMachine_update_invariant:
  assumes "gameInvariant m" and "StateMachine_update dt m = Some m'"
  shows "gameInvariant m'"
proof (cases "currentState m")
  case Play
  with assms show ?thesis by (simp add: StateMachine_update_def updateGame_invariant)
next
  case Boot
  with assms show ?thesis by (simp add: StateMachine_update_def)
next
  case Title
  with assms show ?thesis
    by (auto simp: StateMachine_update_def Let_def transitionTo_invariant split: if_splits)
next
  case Result
  with assms show ?thesis
    by (auto simp: StateMachine_update_def Let_def transitionTo_invariant split: if_splits)
qed

lemma Game_update_invariant:
  assumes "gameInvariant m" and "Game_update dt inp cam m = Some m'"
  shows "gameInvariant m'"
proof -
  let ?m0 = "m\<lparr>world := (world m)\<lparr>inputState := inp, cameraForward := cam\<rparr>\<rparr>"
  from assms(1) have i0: "gameInvariant ?m0" by (simp add: gameInvariant_def sessionConsistent_def)
  from assms(2) obtain m1 where m1: "StateMachine_update dt ?m0 = Some m1"
    by (auto simp: Game_update_def Let_def split: option.splits)
  from StateMachine_update_invariant [OF i0 m1] have i1: "gameInvariant m1" .
  show ?thesis
  proof (cases "isGameRunning (world m1)")
    case False
    with assms(2) m1 i1 show ?thesis by (simp add: Game_update_def Let_def)
  next
    case True
    with assms(2) m1 obtain g where g: "updateGameEntities dt (world m1) = Some g"
      and m': "m' = m1\<lparr>world := g\<rparr>"
      by (auto simp: Game_update_def Let_def split: option.splits)
    from i1 have "sessionConsistent (world m1)" by (simp add: gameInvariant_def)
    from updateGameEntities_consistent [OF this g] i1 show ?thesis
      by (simp add: m' gameInvariant_def)
  qed
qed


lemma Game_new_invariant: "gameInvariant (Game_new r inp cam)"
  by (simp add: Game_new_def gameInvariant_def sessionConsistent_def createSpawnPositions_def
      Creature_new_def Creature_generateRandomTarget_def Let_def split: prod.splits)

lemma Game_run_invariant:
  "gameInvariant m \<Longrightarrow> Game_run steps m = Some m' \<Longrightarrow> gameInvariant m'"
proof (induction steps arbitrary: m)
  case Nil
  then show ?case by simp
next
  case (Cons step steps)
  show ?case
  proof (cases step)
    case BootTimer
    with Cons.prems have "Game_run steps (transitionTo Title m) = Some m'"
      by (simp add: Game_bootTimer_def)
    with Cons.IH [OF transitionTo_invariant [OF Cons.prems(1)]] show ?thesis by simp
  next
    case (Tick dt inp cam)
    with Cons.prems(2) obtain m1 where u: "Game_update dt inp cam m = Some m1"
      and r: "Game_run steps m1 = Some m'"
      by (auto split: option.splits)
    from Cons.IH [OF Game_update_invariant [OF Cons.prems(1) u] r] show ?thesis .
  qed
qed

lemma Game_run_consistent:
  "Game_run steps (Game_new r inp cam) = Some m \<Longrightarrow> sessionConsistent (world m)"
  using Game_run_invariant [OF Game_new_invariant] by (simp add: gameInvariant_def)

text \<open>
  C7. In the Play phase \<^verbatim>\<open>StateMachine.update\<close> runs \<^verbatim>\<open>updateGame\<close>, which
  evaluates \<^verbatim>\<open>checkGameConditions\<close> once, on the state that the entity update
  (collision resolution and event handling included) returns. The creature condition is
  tested first: with an alive count of 0 the phase becomes Result whatever the timer is;
  otherwise with a timer at or below 0 the phase becomes Result; otherwise nothing
  changes. A frame with a positive frame time always returns. And once the alive count
  has reached 0 (in a session whose count agrees with the creature collection, as it does
  after every run from the constructor), the next \<^verbatim>\<open>updateGame\<close> ends in Result.
\<close>

theorem terminal_conditions:
  assumes "currentState m = Play"
  shows "(aliveCreatures (world m) \<le> 0 \<longrightarrow> currentState (checkGameConditions m) = Result) \<and>
         (0 < aliveCreatures (world m) \<and> gameTimer (world m) \<le> 0 \<longrightarrow>
            currentState (checkGameConditions m) = Result) \<and>
         (0 < aliveCreatures (world m) \<and> 0 < gameTimer (world m) \<longrightarrow> checkGameConditions m = m) \<and>
         StateMachine_update dt m = updateGame dt m \<and>
         updateGame dt m =
           map_option (\<lambda>g. checkGameConditions (m\<lparr>world := g\<rparr>))
             (updateGameEntities dt ((world m)\<lparr>gameTimer := gameTimer (world m) - dt\<rparr>)) \<and>
         (0 < dt \<longrightarrow> updateGame dt m \<noteq> None) \<and>
         (sessionConsistent (world m) \<and> aliveCreatures (world m) \<le> 0 \<longrightarrow>
            (case updateGame dt m of None \<Rightarrow> True | Some m' \<Rightarrow> currentState m' = Result))"
proof (intro conjI impI)
  assume "aliveCreatures (world m) \<le> 0"
  with assms show "currentState (checkGameConditions m) = Result"
    by (simp add: checkGameConditions_def transition_to_Result)
next
  assume "0 < aliveCreatures (world m) \<and> gameTimer (world m) \<le> 0"
  with assms show "currentState (checkGameConditions m) = Result"
    by (simp add: checkGameConditions_def transition_to_Result)
next
  assume "0 < aliveCreatures (world m) \<and> 0 < gameTimer (world m)"
  then show "checkGameConditions m = m" by (simp add: checkGameConditions_def)
next
  from assms show "StateMachine_update dt m = updateGame dt m"
    by (simp add: StateMachine_update_def)
next
  show "updateGame dt m =
     map_option (\<lambda>g. checkGameConditions (m\<lparr>world := g\<rparr>))
       (updateGameEntities dt ((world m)\<lparr>gameTimer := gameTimer (world m) - dt\<rparr>))"
    by (rule updateGame_eq)
next
  assume "0 < dt"
  then show "updateGame dt m \<noteq> None"
    by (simp add: updateGame_eq updateGameEntities_None Player_update_None_iff)
next
  assume a: "sessionConsistent (world m) \<and> aliveCreatures (world m) \<le> 0"
  let ?g = "(world m)\<lparr>gameTimer := gameTimer (world m) - dt\<rparr>"
  from a have sc: "sessionConsistent ?g"
    by (simp add: sessionConsistent_def)
  from a have z: "aliveCreatures ?g \<le> 0"
    by simp
  show "case updateGame dt m of None \<Rightarrow> True | Some m' \<Rightarrow> currentState m' = Result"
  proof (cases "updateGameEntities dt ?g")
    case None
    then show ?thesis by (simp add: updateGame_eq)
  next
    case (Some g')
    from updateGameEntities_alive_mono [OF sc Some] z have "aliveCreatures g' \<le> 0" by simp
    with assms Some show ?thesis
      by (simp add: updateGame_eq checkGameConditions_def transition_to_Result)
  qed
qed

lemma lostGame_consistent: "sessionConsistent lostGame"
proof -
  have "\<And>cs. filter isAlive (map takeDamage cs) = []"
    by (simp add: filter_empty_conv takeDamage_def)
  then show ?thesis by (simp add: sessionConsistent_def lostGame_def)
qed

theorem terminal_conditions_witness:
  "currentState (playMachine lostGame) = Play \<and>
   sessionConsistent (world (playMachine lostGame)) \<and>
   aliveCreatures (world (playMachine lostGame)) \<le> 0 \<and>
   0 < gameTimer (world (playMachine lostGame)) \<and>
   currentState (checkGameConditions (playMachine lostGame)) = Result \<and>
   (case updateGame (1 / 10) (playMachine lostGame) of
      None \<Rightarrow> False
    | Some m' \<Rightarrow> currentState m' = Result)"
proof -
  have p: "currentState (playMachine lostGame) = Play" by (simp add: playMachine_def)
  have c: "sessionConsistent (world (playMachine lostGame))"
    by (simp add: playMachine_def lostGame_consistent)
  have z: "aliveCreatures (world (playMachine lostGame)) \<le> 0"
    "0 < gameTimer (world (playMachine lostGame))"
    by (simp_all add: playMachine_def lostGame_def)
  have d: "(0::real) < 1 / 10" by simp
  note t = terminal_conditions [OF p, of "1 / 10"]
  from t z have r: "currentState (checkGameConditions (playMachine lostGame)) = Result" by blast
  from t d have n: "updateGame (1 / 10) (playMachine lostGame) \<noteq> None" by blast
  from t c z have "case updateGame (1 / 10) (playMachine lostGame) of
      None \<Rightarrow> True | Some m' \<Rightarrow> currentState m' = Result" by blast
  with n have "case updateGame (1 / 10) (playMachine lostGame) of
      None \<Rightarrow> False | Some m' \<Rightarrow> currentState m' = Result"
    by (cases "updateGame (1 / 10) (playMachine lostGame)") simp_all
  with p c z r show ?thesis by blast
qed

section \<open>Properties of melee against falling hazards\<close>

lemma terrain_origin: "3 / 20 \<le> getTerrainHeight 0 0 \<and> getTerrainHeight 0 0 \<le> 1 / 4"
proof -
  have a: "0 \<le> sin (1::real)" "sin (1::real) \<le> 1"
    using pi_ge_two by (auto intro!: sin_ge_zero)
  have b: "0 \<le> sin (1 / 2 :: real)" "sin (1 / 2 :: real) \<le> 1 / 2"
    using pi_ge_two sin_x_le_x [of "1 / 2 :: real"] by (auto intro!: sin_ge_zero)
  have "0 \<le> sin (1::real) * sin (1 / 2 :: real)" using a b by simp
  moreover have "sin (1::real) * sin (1 / 2 :: real) \<le> 1 * (1 / 2)"
    using a b by (intro mult_mono) auto
  ultimately show ?thesis by (simp add: getTerrainHeight_def)
qed

lemma jump_frame1_camera:
  "Player_update (1 / 10) jumpInput (Some (Vector3 0 0 (- 1))) standing =
     Some (jumpState (127 / 100) (67 / 10) True (3 / 20) (3 / 5))"
  using getTerrainHeight_lower [of 0 0]
  by (simp add: player_defs example_defs jumpState_def Let_def)

lemma Meteor_update_Falling:
  "state m = Falling \<Longrightarrow>
     state (fst (Meteor_update dt m)) = (if hitsTerrain dt m then Exploded else Falling) \<and>
     meteor_position (fst (Meteor_update dt m)) =
       vadd (meteor_position m) (multiplyScalar (meteor_velocity m) dt)"
  by (simp add: Meteor_update_def updateFalling_def hitsTerrain_def explode_def Let_def)

lemma Meteor_update_keep:
  "snd (Meteor_update dt m) \<longleftrightarrow> state m \<noteq> Destroyed \<and> state m \<noteq> Exploded"
  by (cases "state m") (simp_all add: Meteor_update_def Let_def)

lemma cleanupMeteors_meteors:
  "meteors (cleanupMeteors s) =
     map (\<lambda>m. fst (Meteor_update 0 m))
       (filter (\<lambda>m. state m \<noteq> Destroyed \<and> state m \<noteq> Exploded) (meteors s))"
  by (simp add: cleanupMeteors_def filter_map comp_def Meteor_update_keep)

lemma punchLoop_map:
  "fst (punchLoop ps i ms) =
     map (\<lambda>m. if state m = Falling \<and> sphereIntersectsSphere ps (Meteor_getBoundingSphere m)
               then destroy m else m) ms"
proof (induction ms arbitrary: i)
  case Nil
  then show ?case by simp
next
  case (Cons m ms)
  obtain rest' events where r: "punchLoop ps (Suc i) ms = (rest', events)"
    by (cases "punchLoop ps (Suc i) ms")
  with Cons.IH [of "Suc i"] have "rest' = map (\<lambda>m. if state m = Falling \<and>
      sphereIntersectsSphere ps (Meteor_getBoundingSphere m) then destroy m else m) ms"
    by simp
  with r show ?case by (simp add: canBeDestroyed_def)
qed

lemma CollisionSystem_update_meteors:
  "fst (snd (snd (CollisionSystem_update p cs ms))) = fst (checkPunchVsMeteors p ms)"
  by (simp add: CollisionSystem_update_def Let_def split: prod.splits)

lemma handle_fold_spawner:
  "meteorSpawner (foldl (\<lambda>g' event. handleCollisionEvent event g') g es) = meteorSpawner g"
proof (induction es arbitrary: g)
  case Nil
  then show ?case by simp
next
  case (Cons e es)
  have "meteorSpawner (handleCollisionEvent e g) = meteorSpawner g"
    by (cases e) (simp_all add: handleCollisionEvent_def)
  with Cons.IH [of "handleCollisionEvent e g"] show ?case by simp
qed

lemma updateGameEntities_meteors:
  "map_option (\<lambda>g'. meteors (meteorSpawner g')) (updateGameEntities dt g) =
     map_option
       (\<lambda>p1. fst (checkPunchVsMeteors p1
          (getMeteors (fst (MeteorSpawner_update dt (meteorSpawner g)
             (snd (updateCreatures dt (getTelegraphPositions (meteorSpawner g)) (creatures g)
                (random g))))))))
       (Player_update dt (inputState g) (Some (cameraForward g)) (player g))"
proof (cases "Player_update dt (inputState g) (Some (cameraForward g)) (player g)")
  case None
  then show ?thesis by (simp add: updateGameEntities_None)
next
  case (Some p1)
  obtain cs1 r1 where u: "updateCreatures dt (getTelegraphPositions (meteorSpawner g)) (creatures g) (random g) = (cs1, r1)"
    by (cases "updateCreatures dt (getTelegraphPositions (meteorSpawner g)) (creatures g) (random g)")
  obtain sp1 r2 where s: "MeteorSpawner_update dt (meteorSpawner g) r1 = (sp1, r2)"
    by (cases "MeteorSpawner_update dt (meteorSpawner g) r1")
  obtain p2 cs2 ms2 es where c: "CollisionSystem_update p1 cs1 (getMeteors sp1) = (p2, cs2, ms2, es)"
    using prod_cases4 by blast
  from CollisionSystem_update_meteors [of p1 cs1 "getMeteors sp1"] c
  have ms2: "ms2 = fst (checkPunchVsMeteors p1 (getMeteors sp1))" by simp
  show ?thesis
    unfolding updateGameEntities_unfold [OF Some u s c] Some
    by (simp add: handle_fold_spawner u s ms2)
qed

lemma distanceTo_vertical: "distanceTo (Vector3 x a z) (Vector3 x b z) = \<bar>a - b\<bar>"
  by (simp add: distanceTo_def vsub_def vlength_def)

lemma nearMeteor_hits: "state nearMeteor = Falling \<and> hitsTerrain (1 / 10) nearMeteor"
  using getTerrainHeight_lower [of 0 "- (7 / 10)"]
  by (simp add: nearMeteor_def hitsTerrain_def vadd_def multiplyScalar_def meteorRadius_def)

lemma highMeteor_misses: "state highMeteor = Falling \<and> \<not> hitsTerrain (1 / 10) highMeteor"
  using getTerrainHeight_upper [of 0 "- (7 / 10)"]
  by (simp add: highMeteor_def hitsTerrain_def vadd_def multiplyScalar_def meteorRadius_def)

lemma jumpPunchSphere_active:
  "getPunchSphere (jumpState (127 / 100) (67 / 10) True (3 / 20) (3 / 5)) = Some jumpPunchSphere"
  by (simp add: getPunchSphere_def jumpState_def jumpPunchSphere_def)

lemma nearMeteor_overlaps:
  "sphereIntersectsSphere jumpPunchSphere
     (Meteor_getBoundingSphere (fst (Meteor_update (1 / 10) nearMeteor)))"
proof -
  have "meteor_position (fst (Meteor_update (1 / 10) nearMeteor)) = Vector3 0 (- (1 / 5)) (- (7 / 10))"
    using nearMeteor_hits Meteor_update_Falling [of nearMeteor "1 / 10"]
    by (simp add: nearMeteor_def vadd_def multiplyScalar_def)
  then show ?thesis
    using terrain_origin
    by (simp add: sphereIntersectsSphere_def jumpPunchSphere_def Meteor_getBoundingSphere_def
        distanceTo_vertical meteorRadius_def)
qed

lemma highMeteor_overlaps:
  "sphereIntersectsSphere jumpPunchSphere
     (Meteor_getBoundingSphere (fst (Meteor_update (1 / 10) highMeteor)))"
proof -
  have "meteor_position (fst (Meteor_update (1 / 10) highMeteor)) = Vector3 0 (6 / 5) (- (7 / 10))"
    using highMeteor_misses Meteor_update_Falling [of highMeteor "1 / 10"]
    by (simp add: highMeteor_def vadd_def multiplyScalar_def)
  then show ?thesis
    using terrain_origin
    by (simp add: sphereIntersectsSphere_def jumpPunchSphere_def Meteor_getBoundingSphere_def
        distanceTo_vertical meteorRadius_def)
qed

lemma no_spawn_update:
  "\<not> cadenceFires (advanceTimers dt s) \<Longrightarrow>
     MeteorSpawner_update dt s r = (cleanupMeteors (updateMeteors dt (advanceTimers dt s)), r)"
  by (simp add: MeteorSpawner_update_def Let_def)

text \<open>
  C4, as the code has it. A falling hazard that reaches terrain height in a frame becomes
  Exploded in the lifecycle pass of the spawner's update; one that does not reach it
  stays Falling. The melee pass runs afterwards, on the list the spawner returns and with
  the player already updated: it marks Destroyed exactly the hazards that are Falling
  then and intersect the active punch sphere, and changes nothing else (nothing at all
  without an active punch). So within one frame the explosion comes first: a hazard that
  lands in the frame is Exploded, not Destroyed, and melee destruction applies only to
  hazards still Falling after the lifecycle pass.
\<close>

theorem lifecycle_before_melee:
  "(state m = Falling \<and> hitsTerrain dt m \<longrightarrow> state (fst (Meteor_update dt m)) = Exploded) \<and>
   (state m = Falling \<and> \<not> hitsTerrain dt m \<longrightarrow> state (fst (Meteor_update dt m)) = Falling) \<and>
   (getPunchSphere p = None \<longrightarrow> checkPunchVsMeteors p ms = (ms, [])) \<and>
   (getPunchSphere p = Some ps \<longrightarrow>
      fst (checkPunchVsMeteors p ms) =
        map (\<lambda>m. if state m = Falling \<and> sphereIntersectsSphere ps (Meteor_getBoundingSphere m)
                  then destroy m else m) ms) \<and>
   map_option (\<lambda>g'. meteors (meteorSpawner g')) (updateGameEntities dt g) =
     map_option
       (\<lambda>p1. fst (checkPunchVsMeteors p1
          (getMeteors (fst (MeteorSpawner_update dt (meteorSpawner g)
             (snd (updateCreatures dt (getTelegraphPositions (meteorSpawner g)) (creatures g)
                (random g))))))))
       (Player_update dt (inputState g) (Some (cameraForward g)) (player g))"
proof (intro conjI impI)
  assume "state m = Falling \<and> hitsTerrain dt m"
  with Meteor_update_Falling [of m dt] show "state (fst (Meteor_update dt m)) = Exploded"
    by simp
next
  assume "state m = Falling \<and> \<not> hitsTerrain dt m"
  with Meteor_update_Falling [of m dt] show "state (fst (Meteor_update dt m)) = Falling"
    by simp
next
  assume "getPunchSphere p = None"
  then show "checkPunchVsMeteors p ms = (ms, [])" by (simp add: checkPunchVsMeteors_def)
next
  assume "getPunchSphere p = Some ps"
  then show "fst (checkPunchVsMeteors p ms) =
        map (\<lambda>m. if state m = Falling \<and> sphereIntersectsSphere ps (Meteor_getBoundingSphere m)
                  then destroy m else m) ms"
    by (simp add: checkPunchVsMeteors_def punchLoop_map)
next
  show "map_option (\<lambda>g'. meteors (meteorSpawner g')) (updateGameEntities dt g) =
     map_option
       (\<lambda>p1. fst (checkPunchVsMeteors p1
          (getMeteors (fst (MeteorSpawner_update dt (meteorSpawner g)
             (snd (updateCreatures dt (getTelegraphPositions (meteorSpawner g)) (creatures g)
                (random g))))))))
       (Player_update dt (inputState g) (Some (cameraForward g)) (player g))"
    by (rule updateGameEntities_meteors)
qed

theorem lifecycle_before_melee_witness:
  "state nearMeteor = Falling \<and> hitsTerrain (1 / 10) nearMeteor \<and>
   state (fst (Meteor_update (1 / 10) nearMeteor)) = Exploded \<and>
   state highMeteor = Falling \<and> \<not> hitsTerrain (1 / 10) highMeteor \<and>
   state (fst (Meteor_update (1 / 10) highMeteor)) = Falling \<and>
   getPunchSphere standing = None \<and>
   checkPunchVsMeteors standing [highMeteor] = ([highMeteor], []) \<and>
   getPunchSphere (jumpState (127 / 100) (67 / 10) True (3 / 20) (3 / 5)) = Some jumpPunchSphere \<and>
   map state (fst (checkPunchVsMeteors (jumpState (127 / 100) (67 / 10) True (3 / 20) (3 / 5))
     [fst (Meteor_update (1 / 10) nearMeteor), fst (Meteor_update (1 / 10) highMeteor)])) =
     [Exploded, Destroyed]"
proof -
  note n = lifecycle_before_melee [of nearMeteor "1 / 10" standing "[highMeteor]"
      jumpPunchSphere meleeGame]
  note h = lifecycle_before_melee [of highMeteor "1 / 10"
      "jumpState (127 / 100) (67 / 10) True (3 / 20) (3 / 5)"
      "[fst (Meteor_update (1 / 10) nearMeteor), fst (Meteor_update (1 / 10) highMeteor)]"
      jumpPunchSphere meleeGame]
  have none: "getPunchSphere standing = None" by (simp add: getPunchSphere_def example_defs)
  from n nearMeteor_hits have e: "state (fst (Meteor_update (1 / 10) nearMeteor)) = Exploded"
    by blast
  from h highMeteor_misses have f: "state (fst (Meteor_update (1 / 10) highMeteor)) = Falling"
    by blast
  from n none have p0: "checkPunchVsMeteors standing [highMeteor] = ([highMeteor], [])" by blast
  from h jumpPunchSphere_active
  have "fst (checkPunchVsMeteors (jumpState (127 / 100) (67 / 10) True (3 / 20) (3 / 5))
       [fst (Meteor_update (1 / 10) nearMeteor), fst (Meteor_update (1 / 10) highMeteor)]) =
     map (\<lambda>m. if state m = Falling \<and> sphereIntersectsSphere jumpPunchSphere (Meteor_getBoundingSphere m)
               then destroy m else m)
       [fst (Meteor_update (1 / 10) nearMeteor), fst (Meteor_update (1 / 10) highMeteor)]"
    by blast
  then have p1: "map state (fst (checkPunchVsMeteors (jumpState (127 / 100) (67 / 10) True (3 / 20) (3 / 5))
     [fst (Meteor_update (1 / 10) nearMeteor), fst (Meteor_update (1 / 10) highMeteor)])) =
     [Exploded, Destroyed]"
    using e f highMeteor_overlaps by (simp add: destroy_def)
  from nearMeteor_hits highMeteor_misses e f none p0 jumpPunchSphere_active p1 show ?thesis
    by blast
qed

text \<open>
  C4 as stated fails: the player jumps, the punch sphere is active when the collision
  passes run and intersects the hazard where the frame's fall has put it, and the hazard
  reaches terrain height in this frame. It becomes Exploded before the melee pass runs,
  and the frame ends without any hazard marked Destroyed (the spawner's list is empty).
\<close>

theorem melee_precedence_counterexample:
  "state nearMeteor = Falling \<and>
   state (fst (Meteor_update (1 / 10) nearMeteor)) = Exploded \<and>
   Player_update (1 / 10) (inputState meleeGame) (Some (cameraForward meleeGame)) (player meleeGame) =
     Some (jumpState (127 / 100) (67 / 10) True (3 / 20) (3 / 5)) \<and>
   getPunchSphere (jumpState (127 / 100) (67 / 10) True (3 / 20) (3 / 5)) = Some jumpPunchSphere \<and>
   sphereIntersectsSphere jumpPunchSphere
     (Meteor_getBoundingSphere (fst (Meteor_update (1 / 10) nearMeteor))) \<and>
   meteors (meteorSpawner meleeGame) = [nearMeteor] \<and>
   map_option (\<lambda>g'. meteors (meteorSpawner g')) (updateGameEntities (1 / 10) meleeGame) = Some []"
proof -
  have e: "state (fst (Meteor_update (1 / 10) nearMeteor)) = Exploded"
    using nearMeteor_hits Meteor_update_Falling [of nearMeteor "1 / 10"] by simp
  have pl: "Player_update (1 / 10) (inputState meleeGame) (Some (cameraForward meleeGame))
      (player meleeGame) = Some (jumpState (127 / 100) (67 / 10) True (3 / 20) (3 / 5))"
    by (simp add: meleeGame_def jump_frame1_camera)
  have ms: "meteors (meteorSpawner meleeGame) = [nearMeteor]" by (simp add: meleeGame_def)
  have nf: "\<not> cadenceFires (advanceTimers (1 / 10) (meteorSpawner meleeGame))"
    by (simp add: cadenceFires_def advanceTimers_def meleeGame_def MeteorSpawner_new_def
        getCurrentDifficultyPhase_def)
  have up: "\<And>r. getMeteors (fst (MeteorSpawner_update (1 / 10) (meteorSpawner meleeGame) r)) = []"
    using e
    by (simp add: no_spawn_update [OF nf] getMeteors_def cleanupMeteors_meteors updateMeteors_def
        advanceTimers_def ms)
  have "map_option (\<lambda>g'. meteors (meteorSpawner g')) (updateGameEntities (1 / 10) meleeGame) = Some []"
    unfolding updateGameEntities_meteors pl up
    by (simp add: checkPunchVsMeteors_def split: option.splits)
  with nearMeteor_hits e pl jumpPunchSphere_active nearMeteor_overlaps ms show ?thesis by blast
qed

end
